theory Spec2Isabelle
  imports Complex_Main
begin

section \<open>Relative position index (beit.py, gen\_relative\_position\_index)\<close>

text \<open>
  Integer tensors are nested lists of \<open>int\<close>. A window size is a grid shape, a pair of
  naturals; the arithmetic on it is Python's, on \<open>int\<close>.
\<close>

definition arange :: "nat \<Rightarrow> int list" where
  "arange n = map int [0..<n]"

text \<open>\<open>flow.meshgrid([a, b])\<close> (matrix indexing): two grids of shape \<open>(len a, len b)\<close>.\<close>

definition meshgrid :: "int list \<Rightarrow> int list \<Rightarrow> int list list \<times> int list list" where
  "meshgrid a b = (map (\<lambda>u. map (\<lambda>_. u) b) a, map (\<lambda>_. b) a)"

definition stack :: "'a \<times> 'a \<Rightarrow> 'a list" where
  "stack p = [fst p, snd p]"

text \<open>\<open>flow.flatten(t, 1)\<close> on a rank-3 tensor.\<close>

definition flatten_1 :: "int list list list \<Rightarrow> int list list" where
  "flatten_1 t = map concat t"

text \<open>\<open>c[:, :, None] - c[:, None, :]\<close>\<close>

definition pairwise_diff :: "int list list \<Rightarrow> int list list list" where
  "pairwise_diff c = map (\<lambda>cf. map (\<lambda>a. map (\<lambda>b. a - b) cf) cf) c"

text \<open>\<open>t.permute(1, 2, 0)\<close> on a rank-3 tensor of shape \<open>(d0, d1, d2)\<close>.\<close>

definition permute_120 :: "int list list list \<Rightarrow> int list list list" where
  "permute_120 t =
     map (\<lambda>i. map (\<lambda>j. map (\<lambda>d. t ! d ! i ! j) [0..<length t]) [0..<length (t ! 0 ! 0)])
         [0..<length (t ! 0)]"

text \<open>\<open>t[:, :, k] += c\<close> and \<open>t[:, :, k] *= c\<close>\<close>

definition add_last :: "nat \<Rightarrow> int \<Rightarrow> int list list list \<Rightarrow> int list list list" where
  "add_last k c t = map (map (\<lambda>v. v[k := v ! k + c])) t"

definition mul_last :: "nat \<Rightarrow> int \<Rightarrow> int list list list \<Rightarrow> int list list list" where
  "mul_last k c t = map (map (\<lambda>v. v[k := v ! k * c])) t"

definition sum_last :: "int list list list \<Rightarrow> int list list" where
  "sum_last t = map (map sum_list) t"

definition zeros2 :: "nat \<Rightarrow> nat \<Rightarrow> int list list" where
  "zeros2 m n = replicate m (replicate n 0)"

text \<open>\<open>t[1:, 1:] = s\<close>, for \<open>s\<close> of the shape of the slice.\<close>

definition assign_from_1_1 :: "int list list \<Rightarrow> int list list \<Rightarrow> int list list" where
  "assign_from_1_1 t s =
     map (\<lambda>i. map (\<lambda>j. if 1 \<le> i \<and> 1 \<le> j then s ! (i - 1) ! (j - 1) else t ! i ! j)
                 [0..<length (t ! i)]) [0..<length t]"

text \<open>\<open>t[0, 0:] = c\<close>, \<open>t[0:, 0] = c\<close> and \<open>t[0, 0] = c\<close>\<close>

definition assign_row_0 :: "int list list \<Rightarrow> int \<Rightarrow> int list list" where
  "assign_row_0 t c = t[0 := map (\<lambda>_. c) (t ! 0)]"

definition assign_col_0 :: "int list list \<Rightarrow> int \<Rightarrow> int list list" where
  "assign_col_0 t c = map (\<lambda>row. row[0 := c]) t"

definition assign_0_0 :: "int list list \<Rightarrow> int \<Rightarrow> int list list" where
  "assign_0_0 t c = t[0 := (t ! 0)[0 := c]]"

definition num_relative_distance_of :: "nat \<times> nat \<Rightarrow> int" where
  "num_relative_distance_of window_size =
     (2 * int (fst window_size) - 1) * (2 * int (snd window_size) - 1) + 3"

definition gen_relative_position_index :: "nat \<times> nat \<Rightarrow> int list list" where
  "gen_relative_position_index window_size =
     (let num_relative_distance = num_relative_distance_of window_size;
          window_area = fst window_size * snd window_size;
          coords = stack (meshgrid (arange (fst window_size)) (arange (snd window_size)));
          coords_flatten = flatten_1 coords;
          relative_coords = pairwise_diff coords_flatten;
          relative_coords = permute_120 relative_coords;
          relative_coords = add_last 0 (int (fst window_size) - 1) relative_coords;
          relative_coords = add_last 1 (int (snd window_size) - 1) relative_coords;
          relative_coords = mul_last 0 (2 * int (snd window_size) - 1) relative_coords;
          relative_position_index = zeros2 (window_area + 1) (window_area + 1);
          relative_position_index = assign_from_1_1 relative_position_index (sum_last relative_coords);
          relative_position_index = assign_row_0 relative_position_index (num_relative_distance - 3);
          relative_position_index = assign_col_0 relative_position_index (num_relative_distance - 2);
          relative_position_index = assign_0_0 relative_position_index (num_relative_distance - 1)
      in relative_position_index)"

section \<open>Tensors, errors and the external runtime\<close>

text \<open>
  Floating-point tensors are nested lists of reals. Rounding is modelled where the code reads
  a \<open>float32\<close> entry back as a Python float (the stochastic depth rates, see \<open>to_float32\<close>) and
  is outside the model elsewhere, as are infinities and NaN. A rank-3 tensor \<open>(B, N, C)\<close> is a
  list of \<open>B\<close> matrices of \<open>N\<close> rows of width \<open>C\<close>. What the runtime raises is a value of
  \<open>error\<close>.
\<close>

type_synonym vec = "real list"
type_synonym mat = "real list list"
type_synonym tensor3 = "real list list list"
type_synonym tensor4 = "real list list list list"

datatype error = ZeroDivisionError | TypeError | IndexError | ShapeError | FloatNaN

definition bind_result :: "error + 'a \<Rightarrow> ('a \<Rightarrow> error + 'b) \<Rightarrow> error + 'b" where
  "bind_result r f = (case r of Inl e \<Rightarrow> Inl e | Inr v \<Rightarrow> f v)"

text \<open>
  A tensor of any rank, as the runtime stores it: its shape and its entries in row-major
  order. The scores of the attention are kept in this form, since adding a bias broadcasts.
\<close>

record ndarray =
  nd_shape :: "nat list"
  nd_data :: "real list"

text \<open>
  The collaborators that are not in beit.py: the training flag of the module tree, the random
  draws of the initialisers (a fixed seed: the value drawn for an entry is a function of its
  position), the random masks of dropout and stochastic depth in training mode, and the
  activation function of the feed-forward branch, and the forward function and parameter names
  of the patch embedding.
\<close>

record runtime =
  training :: bool
  fresh_weight :: "nat \<Rightarrow> nat \<Rightarrow> real"
  fresh_bias :: "nat \<Rightarrow> real"
  trunc_normal_sample :: "real \<Rightarrow> nat \<Rightarrow> nat \<Rightarrow> real"
  rand_dropout3 :: "real \<Rightarrow> tensor3 \<Rightarrow> tensor3"
  rand_dropout_nd :: "real \<Rightarrow> ndarray \<Rightarrow> ndarray"
  rand_drop_path :: "real \<Rightarrow> tensor3 \<Rightarrow> tensor3"
  act :: "real \<Rightarrow> real"
  patch_embed_apply :: "tensor4 \<Rightarrow> error + tensor3"
  patch_embed_names :: "string list"

text \<open>\<open>B, N, C = x.shape\<close>: defined on non-empty rectangular nested lists.\<close>

definition shape3 :: "tensor3 \<Rightarrow> (nat \<times> nat \<times> nat) option" where
  "shape3 x =
     (if x \<noteq> [] \<and> hd x \<noteq> [] \<and> (\<forall>m \<in> set x. length m = length (hd x))
         \<and> (\<forall>m \<in> set x. \<forall>r \<in> set m. length r = length (hd (hd x)))
      then Some (length x, length (hd x), length (hd (hd x))) else None)"

definition zeros :: "nat \<Rightarrow> vec" where
  "zeros n = replicate n 0"

definition ones :: "nat \<Rightarrow> vec" where
  "ones n = replicate n 1"

definition zeros_mat :: "nat \<Rightarrow> nat \<Rightarrow> mat" where
  "zeros_mat m n = replicate m (zeros n)"

definition dot :: "vec \<Rightarrow> vec \<Rightarrow> real" where
  "dot u v = sum_list (map2 (*) u v)"

text \<open>
  \<open>F.linear(input, weight, bias)\<close>: \<open>input @ weight.T + bias\<close> on the last axis; \<open>weight\<close>
  has one row per output feature.
\<close>

definition F_linear :: "tensor3 \<Rightarrow> mat \<Rightarrow> vec option \<Rightarrow> error + tensor3" where
  "F_linear input w b =
     (if \<exists>m \<in> set input. \<exists>r \<in> set m. \<exists>wr \<in> set w. length r \<noteq> length wr then Inl ShapeError
      else case b of
        None \<Rightarrow> Inr (map (map (\<lambda>r. map (dot r) w)) input)
      | Some bs \<Rightarrow>
          if length bs \<noteq> length w then Inl ShapeError
          else Inr (map (map (\<lambda>r. map2 (+) (map (dot r) w) bs)) input))"

record Linear =
  weight :: mat
  bias :: "vec option"

text \<open>\<open>nn.Linear(in_features, out_features, bias)\<close> with the framework's default initialisation.\<close>

definition nn_Linear :: "runtime \<Rightarrow> nat \<Rightarrow> nat \<Rightarrow> bool \<Rightarrow> Linear" where
  "nn_Linear rt in_features out_features with_bias =
     \<lparr> weight = map (\<lambda>j. map (\<lambda>i. fresh_weight rt j i) [0..<in_features]) [0..<out_features],
       bias = (if with_bias then Some (map (fresh_bias rt) [0..<out_features]) else None) \<rparr>"

definition Linear_forward :: "Linear \<Rightarrow> tensor3 \<Rightarrow> error + tensor3" where
  "Linear_forward l x = F_linear x (weight l) (bias l)"

text \<open>\<open>nn.Dropout(p)\<close>: the identity outside training mode.\<close>

definition Dropout_forward3 :: "runtime \<Rightarrow> real \<Rightarrow> tensor3 \<Rightarrow> tensor3" where
  "Dropout_forward3 rt p x = (if training rt then rand_dropout3 rt p x else x)"

definition Dropout_forward_nd :: "runtime \<Rightarrow> real \<Rightarrow> ndarray \<Rightarrow> ndarray" where
  "Dropout_forward_nd rt p x = (if training rt then rand_dropout_nd rt p x else x)"

text \<open>Pointwise \<open>a + b\<close> of two tensors of one shape.\<close>

definition add2 :: "mat \<Rightarrow> mat \<Rightarrow> mat" where
  "add2 a b = map2 (map2 (+)) a b"

definition add3 :: "tensor3 \<Rightarrow> tensor3 \<Rightarrow> tensor3" where
  "add3 a b = map2 (map2 (map2 (+))) a b"

section \<open>Tensors of any rank and broadcasting\<close>

text \<open>All multi-indices of a shape in row-major order, and the position of one of them.\<close>

fun indices :: "nat list \<Rightarrow> nat list list" where
  "indices [] = [[]]"
| "indices (d # ds) = concat (map (\<lambda>i. map ((#) i) (indices ds)) [0..<d])"

fun offset :: "nat list \<Rightarrow> nat list \<Rightarrow> nat" where
  "offset (d # ds) (i # js) = i * prod_list ds + offset ds js"
| "offset ds js = 0"

definition nd_get :: "ndarray \<Rightarrow> nat list \<Rightarrow> real" where
  "nd_get t idx = nd_data t ! offset (nd_shape t) idx"

definition tabulate :: "nat list \<Rightarrow> (nat list \<Rightarrow> real) \<Rightarrow> ndarray" where
  "tabulate sh f = \<lparr> nd_shape = sh, nd_data = map f (indices sh) \<rparr>"

text \<open>A multi-index lies within a shape.\<close>

definition in_shape :: "nat list \<Rightarrow> nat list \<Rightarrow> bool" where
  "in_shape idx sh \<longleftrightarrow> list_all2 (<) idx sh"

text \<open>
  Broadcasting of the runtime: two shapes are aligned at their last axis; two sizes go together
  when they are equal or one of them is 1; the result has the larger rank and, on every axis,
  the size that is not 1. The functions with \<open>rev\<close> in their name work on reversed lists, the
  last axis first.
\<close>

fun broadcast_rev :: "nat list \<Rightarrow> nat list \<Rightarrow> nat list option" where
  "broadcast_rev [] ys = Some ys"
| "broadcast_rev (x # xs) [] = Some (x # xs)"
| "broadcast_rev (x # xs) (y # ys) =
     (if x = y \<or> y = 1 then map_option ((#) x) (broadcast_rev xs ys)
      else if x = 1 then map_option ((#) y) (broadcast_rev xs ys)
      else None)"

definition broadcast_shapes :: "nat list \<Rightarrow> nat list \<Rightarrow> nat list option" where
  "broadcast_shapes a b = map_option rev (broadcast_rev (rev a) (rev b))"

text \<open>The index into an operand of shape \<open>sh\<close> that a result index reads.\<close>

fun operand_index_rev :: "nat list \<Rightarrow> nat list \<Rightarrow> nat list" where
  "operand_index_rev (d # ds) (i # js) = (if d = 1 then 0 else i) # operand_index_rev ds js"
| "operand_index_rev ds js = []"

definition operand_index :: "nat list \<Rightarrow> nat list \<Rightarrow> nat list" where
  "operand_index sh idx = rev (operand_index_rev (rev sh) (rev idx))"

text \<open>\<open>a + b\<close> on tensors, with broadcasting.\<close>

definition nd_add :: "ndarray \<Rightarrow> ndarray \<Rightarrow> error + ndarray" where
  "nd_add a b =
     (case broadcast_shapes (nd_shape a) (nd_shape b) of
        None \<Rightarrow> Inl ShapeError
      | Some sh \<Rightarrow>
          Inr (tabulate sh (\<lambda>idx. nd_get a (operand_index (nd_shape a) idx)
                                   + nd_get b (operand_index (nd_shape b) idx))))"

text \<open>Nested lists of a given shape as tensors.\<close>

definition of_tensor3 :: "nat list \<Rightarrow> tensor3 \<Rightarrow> ndarray" where
  "of_tensor3 sh t = \<lparr> nd_shape = sh, nd_data = concat (concat t) \<rparr>"

definition of_tensor4 :: "nat list \<Rightarrow> tensor4 \<Rightarrow> ndarray" where
  "of_tensor4 sh t = \<lparr> nd_shape = sh, nd_data = concat (concat (concat t)) \<rparr>"

text \<open>\<open>t.unsqueeze(0)\<close>\<close>

definition unsqueeze_0 :: "ndarray \<Rightarrow> ndarray" where
  "unsqueeze_0 t = t\<lparr> nd_shape := 1 # nd_shape t \<rparr>"

text \<open>\<open>t.softmax(dim=-1)\<close>\<close>

definition nd_softmax :: "ndarray \<Rightarrow> ndarray" where
  "nd_softmax t =
     tabulate (nd_shape t)
       (\<lambda>idx. exp (nd_get t idx)
               / sum_list (map (\<lambda>j. exp (nd_get t (butlast idx @ [j]))) [0..<last (nd_shape t)]))"

text \<open>
  \<open>a @ v\<close> on tensors of rank at least 2: the matrices of the last two axes are multiplied,
  the axes before them broadcast.
\<close>

definition nd_matmul :: "ndarray \<Rightarrow> ndarray \<Rightarrow> error + ndarray" where
  "nd_matmul a v =
     (let sa = nd_shape a; sv = nd_shape v;
          ba = butlast (butlast sa); bv = butlast (butlast sv)
      in if length sa < 2 \<or> length sv < 2 \<or> last sa \<noteq> last (butlast sv) then Inl ShapeError
         else case broadcast_shapes ba bv of
           None \<Rightarrow> Inl ShapeError
         | Some batch \<Rightarrow>
             Inr (tabulate (batch @ [last (butlast sa), last sv])
               (\<lambda>idx. let bi = take (length batch) idx;
                           i = idx ! length batch;
                           k = idx ! (length batch + 1)
                       in sum_list (map (\<lambda>j. nd_get a (operand_index ba bi @ [i, j])
                                               * nd_get v (operand_index bv bi @ [j, k]))
                                        [0..<last sa]))))"

text \<open>\<open>t.transpose(1, 2)\<close> on a tensor of rank at least 3.\<close>

definition nd_transpose_1_2 :: "ndarray \<Rightarrow> ndarray" where
  "nd_transpose_1_2 t =
     tabulate ((nd_shape t)[1 := nd_shape t ! 2, 2 := nd_shape t ! 1])
       (\<lambda>idx. nd_get t (idx[1 := idx ! 2, 2 := idx ! 1]))"

text \<open>\<open>t.reshape(B, N, -1)\<close>: the entries in row-major order, cut into \<open>B * N\<close> rows.\<close>

definition nd_reshape3 :: "nat \<Rightarrow> nat \<Rightarrow> ndarray \<Rightarrow> error + tensor3" where
  "nd_reshape3 B N t =
     (let total = length (nd_data t)
      in if B * N = 0 \<or> total mod (B * N) \<noteq> 0 then Inl ShapeError
         else let c = total div (B * N)
              in Inr (map (\<lambda>b. map (\<lambda>n. take c (drop ((b * N + n) * c) (nd_data t))) [0..<N])
                          [0..<B]))"

text \<open>A runtime for concrete instances: inference mode, with fixed draws.\<close>

definition rt_eval :: runtime where
  "rt_eval =
     \<lparr> training = False,
       fresh_weight = (\<lambda>j i. real (j + i) / 4),
       fresh_bias = (\<lambda>j. 1 / 8),
       trunc_normal_sample = (\<lambda>std j i. std * (real ((j + i) mod 5) - 2)),
       rand_dropout3 = (\<lambda>p x. x),
       rand_dropout_nd = (\<lambda>p x. x),
       rand_drop_path = (\<lambda>p x. x),
       act = (\<lambda>a. max 0 a),
       patch_embed_apply = (\<lambda>img. Inr (map concat img)),
       patch_embed_names = [''proj.weight'', ''proj.bias''] \<rparr>"

section \<open>Attention (beit.py, class Attention)\<close>

record Attention =
  num_heads :: nat
  scale :: real
  qkv :: Linear
  q_bias :: "vec option"
  k_bias :: "vec option"
  v_bias :: "vec option"
  window_size :: "(nat \<times> nat) option"
  num_relative_distance :: "int option"
  relative_position_bias_table :: "mat option"
  relative_position_index :: "int list list option"
  attn_drop :: real
  proj :: Linear
  proj_drop :: real

text \<open>
  \<open>Attention.__init__\<close>. \<open>dim // num_heads\<close> raises for \<open>num_heads = 0\<close> and
  \<open>head_dim ** -0.5\<close> raises for \<open>head_dim = 0\<close>. A window size, when given, is a pair and so
  is true in \<open>if window_size:\<close>.
\<close>

definition Attention_init ::
  "runtime \<Rightarrow> nat \<Rightarrow> nat \<Rightarrow> bool \<Rightarrow> real \<Rightarrow> real \<Rightarrow> (nat \<times> nat) option \<Rightarrow> nat option
     \<Rightarrow> error + Attention" where
  "Attention_init rt dim' n_heads qkv_bias attn_drop_p proj_drop_p win attn_head_dim =
     (if n_heads = 0 then Inl ZeroDivisionError
      else
        let head_dim = dim' div n_heads;
            head_dim = (case attn_head_dim of Some d \<Rightarrow> d | None \<Rightarrow> head_dim);
            all_head_dim = head_dim * n_heads
        in if head_dim = 0 then Inl ZeroDivisionError
           else Inr
             \<lparr> num_heads = n_heads,
               scale = real head_dim powr (- 0.5),
               qkv = nn_Linear rt dim' (all_head_dim * 3) False,
               q_bias = (if qkv_bias then Some (zeros all_head_dim) else None),
               k_bias = (if qkv_bias then Some (zeros all_head_dim) else None),
               v_bias = (if qkv_bias then Some (zeros all_head_dim) else None),
               window_size = win,
               num_relative_distance =
                 (case win of Some ws \<Rightarrow> Some (num_relative_distance_of ws) | None \<Rightarrow> None),
               relative_position_bias_table =
                 (case win of
                    Some ws \<Rightarrow> Some (zeros_mat (nat (num_relative_distance_of ws)) n_heads)
                  | None \<Rightarrow> None),
               relative_position_index =
                 (case win of Some ws \<Rightarrow> Some (gen_relative_position_index ws) | None \<Rightarrow> None),
               attn_drop = attn_drop_p,
               proj = nn_Linear rt all_head_dim dim' True,
               proj_drop = proj_drop_p \<rparr>)"

text \<open>
  The gather \<open>table[index.view(-1)].view(L + 1, L + 1, -1).permute(2, 0, 1)\<close> of a table with
  one row per bucket: the result has shape \<open>(heads, L + 1, L + 1)\<close>, one matrix per column of the
  table. The index is the \<open>(L + 1) \<times> (L + 1)\<close> matrix the constructor stored, so flattening and
  viewing it again keeps each entry in its place; an index outside the table raises.
\<close>

definition gather_rel_pos_bias :: "mat \<Rightarrow> int list list \<Rightarrow> nat \<times> nat \<Rightarrow> error + ndarray" where
  "gather_rel_pos_bias table index ws =
     (let L1 = fst ws * snd ws + 1
      in if length index \<noteq> L1 \<or> (\<exists>row \<in> set index. length row \<noteq> L1) then Inl ShapeError
         else if \<exists>row \<in> set index. \<exists>v \<in> set row. v < 0 \<or> int (length table) \<le> v
           then Inl IndexError
         else Inr (of_tensor3 [length (hd table), L1, L1]
                     (map (\<lambda>h. map (map (\<lambda>v. table ! nat v ! h)) index)
                          [0..<length (hd table)])))"

text \<open>\<open>Attention._get_rel_pos_bias\<close>: the gather, with a leading axis of size 1.\<close>

definition Attention_get_rel_pos_bias :: "Attention \<Rightarrow> error + ndarray" where
  "Attention_get_rel_pos_bias self =
     (case (relative_position_bias_table self, relative_position_index self, window_size self) of
        (Some table, Some index, Some ws) \<Rightarrow>
          bind_result (gather_rel_pos_bias table index ws) (\<lambda>b. Inr (unsqueeze_0 b))
      | _ \<Rightarrow> Inl TypeError)"

text \<open>
  \<open>qkv.reshape(B, N, 3, num_heads, -1).permute(2, 0, 3, 1, 4)\<close> followed by \<open>unbind(0)\<close>:
  part \<open>s\<close> (0 for q, 1 for k, 2 for v) has shape \<open>(B, num_heads, N, head_dim)\<close>.
\<close>

definition unbind_qkv :: "nat \<Rightarrow> nat \<Rightarrow> nat \<Rightarrow> tensor3 \<Rightarrow> tensor4" where
  "unbind_qkv s n_heads head_dim t =
     map (\<lambda>m. map (\<lambda>h. map (\<lambda>r. take head_dim (drop ((s * n_heads + h) * head_dim) r)) m)
                   [0..<n_heads]) t"

definition scale4 :: "tensor4 \<Rightarrow> real \<Rightarrow> tensor4" where
  "scale4 t c = map (map (map (map (\<lambda>a. a * c)))) t"

text \<open>\<open>q @ k.transpose(-2, -1)\<close>\<close>

definition matmul_transposed :: "tensor4 \<Rightarrow> tensor4 \<Rightarrow> tensor4" where
  "matmul_transposed q k = map2 (map2 (\<lambda>qm km. map (\<lambda>qr. map (dot qr) km) qm)) q k"

text \<open>
  \<open>Attention.forward\<close> up to the scores that enter the softmax: the pair of \<open>attn\<close> before
  \<open>attn.softmax(dim=-1)\<close> and \<open>v\<close>. The scores \<open>q @ k.transpose(-2, -1)\<close> have shape
  \<open>(B, heads, N, N)\<close>; each of the two sums \<open>attn + bias\<close> broadcasts.
\<close>

definition Attention_pre_softmax ::
  "Attention \<Rightarrow> tensor3 \<Rightarrow> ndarray option \<Rightarrow> error + (ndarray \<times> ndarray)" where
  "Attention_pre_softmax self x shared_rel_pos_bias =
     (case shape3 x of
        None \<Rightarrow> Inl ShapeError
      | Some (B, N, C) \<Rightarrow>
          bind_result
            (case q_bias self of
               Some qb \<Rightarrow>
                 (case (k_bias self, v_bias self) of
                    (Some kb, Some vb) \<Rightarrow> Inr (Some (qb @ kb @ vb))
                  | _ \<Rightarrow> Inl TypeError)
             | None \<Rightarrow> Inr None)
            (\<lambda>qkv_bias.
          bind_result (F_linear x (weight (qkv self)) qkv_bias)
            (\<lambda>qkv_out.
          let width = length (weight (qkv self)) in
          if num_heads self = 0 \<or> width mod (3 * num_heads self) \<noteq> 0 then Inl ShapeError
          else
            let head_dim = width div (3 * num_heads self);
                q = unbind_qkv 0 (num_heads self) head_dim qkv_out;
                k = unbind_qkv 1 (num_heads self) head_dim qkv_out;
                v = unbind_qkv 2 (num_heads self) head_dim qkv_out;
                q = scale4 q (scale self);
                attn = of_tensor4 [B, num_heads self, N, N] (matmul_transposed q k)
            in
          bind_result
            (if relative_position_bias_table self \<noteq> None
             then bind_result (Attention_get_rel_pos_bias self) (nd_add attn)
             else Inr attn)
            (\<lambda>attn.
          bind_result
            (case shared_rel_pos_bias of
               Some b \<Rightarrow> nd_add attn b
             | None \<Rightarrow> Inr attn)
            (\<lambda>attn. Inr (attn, of_tensor4 [B, num_heads self, N, head_dim] v))))))"

definition Attention_forward ::
  "runtime \<Rightarrow> Attention \<Rightarrow> tensor3 \<Rightarrow> ndarray option \<Rightarrow> error + tensor3" where
  "Attention_forward rt self x shared_rel_pos_bias =
     bind_result (Attention_pre_softmax self x shared_rel_pos_bias)
       (\<lambda>(attn, v).
          let attn = nd_softmax attn;
              attn = Dropout_forward_nd rt (attn_drop self) attn
          in bind_result (nd_matmul attn v) (\<lambda>y.
             bind_result (nd_reshape3 (length x) (length (hd x)) (nd_transpose_1_2 y)) (\<lambda>y.
             bind_result (Linear_forward (proj self) y)
               (\<lambda>y. Inr (Dropout_forward3 rt (proj_drop self) y)))))"

text \<open>A module with one head, a \<open>1 \<times> 1\<close> window and its own table, for concrete instances.\<close>

definition Attention_example :: Attention where
  "Attention_example =
     \<lparr> num_heads = 1, scale = 1, qkv = \<lparr>weight = [[1], [2], [3]], bias = None\<rparr>,
       q_bias = None, k_bias = None, v_bias = None, window_size = Some (1, 1),
       num_relative_distance = Some 4,
       relative_position_bias_table = Some [[1], [2], [3], [4]],
       relative_position_index = Some [[3, 1], [2, 0]], attn_drop = 0,
       proj = \<lparr>weight = [[0]], bias = Some [1 / 8]\<rparr>, proj_drop = 0 \<rparr>"

section \<open>Layers used by Block and Beit\<close>

text \<open>
  \<open>nn.LayerNorm(normalized_shape, eps)\<close> over the last axis. The \<open>norm_layer\<close> argument of
  \<open>Block\<close> and \<open>Beit\<close> is taken to be \<open>nn.LayerNorm\<close> with some \<open>eps\<close>, as in their defaults.
\<close>

record LayerNorm =
  normalized_shape :: nat
  eps :: real
  norm_weight :: vec
  norm_bias :: vec

definition nn_LayerNorm :: "nat \<Rightarrow> real \<Rightarrow> LayerNorm" where
  "nn_LayerNorm d e = \<lparr> normalized_shape = d, eps = e, norm_weight = ones d, norm_bias = zeros d \<rparr>"

definition layer_norm_row :: "LayerNorm \<Rightarrow> vec \<Rightarrow> vec" where
  "layer_norm_row lnorm r =
     (let mean = sum_list r / real (length r);
          var = sum_list (map (\<lambda>a. (a - mean) ^ 2) r) / real (length r)
      in map2 (\<lambda>a (w, b). (a - mean) / sqrt (var + eps lnorm) * w + b) r
           (zip (norm_weight lnorm) (norm_bias lnorm)))"

definition LayerNorm_forward2 :: "LayerNorm \<Rightarrow> mat \<Rightarrow> error + mat" where
  "LayerNorm_forward2 lnorm x =
     (if \<exists>r \<in> set x. length r \<noteq> normalized_shape lnorm then Inl ShapeError
      else Inr (map (layer_norm_row lnorm) x))"

definition LayerNorm_forward :: "LayerNorm \<Rightarrow> tensor3 \<Rightarrow> error + tensor3" where
  "LayerNorm_forward lnorm x =
     (if \<exists>m \<in> set x. \<exists>r \<in> set m. length r \<noteq> normalized_shape lnorm then Inl ShapeError
      else Inr (map (map (layer_norm_row lnorm)) x))"

text \<open>
  Modelled from the spec: \<open>Mlp\<close> is defined in flowvision.layers, which is not part of the
  sources at hand. The spec describes the feed-forward branch as ``expand by mlp\_ratio,
  activate, project back, dropout'', and beit.py reads its second linear layer as
  \<open>mlp.fc2\<close>.
\<close>

record Mlp =
  fc1 :: Linear
  fc2 :: Linear
  mlp_drop :: real

definition Mlp_init :: "runtime \<Rightarrow> nat \<Rightarrow> nat \<Rightarrow> real \<Rightarrow> Mlp" where
  "Mlp_init rt in_features hidden_features drop_p =
     \<lparr> fc1 = nn_Linear rt in_features hidden_features True,
       fc2 = nn_Linear rt hidden_features in_features True,
       mlp_drop = drop_p \<rparr>"

definition Mlp_forward :: "runtime \<Rightarrow> Mlp \<Rightarrow> tensor3 \<Rightarrow> error + tensor3" where
  "Mlp_forward rt self x =
     bind_result (Linear_forward (fc1 self) x)
       (\<lambda>h. let h = map (map (map (act rt))) h;
                 h = Dropout_forward3 rt (mlp_drop self) h
             in bind_result (Linear_forward (fc2 self) h)
                  (\<lambda>y. Inr (Dropout_forward3 rt (mlp_drop self) y)))"

text \<open>
  Modelled from the spec: \<open>DropPath\<close> is defined in flowvision.layers. The spec: stochastic
  depth drops a residual branch at random per sample in training and ``at inference it is
  always a no-op identity''. \<open>nn.Identity\<close> returns its input in every mode.
\<close>

datatype drop_path_module = DropPath real | Identity

definition drop_path_forward :: "runtime \<Rightarrow> drop_path_module \<Rightarrow> tensor3 \<Rightarrow> tensor3" where
  "drop_path_forward rt m x =
     (case m of
        DropPath p \<Rightarrow> (if training rt then rand_drop_path rt p x else x)
      | Identity \<Rightarrow> x)"

text \<open>
  The residual sum \<open>x + y\<close> of two tensors of one shape, and the product \<open>gamma * y\<close> of a
  per-channel vector with a tensor whose last axis has the length of the vector. Other shapes
  are reported as \<open>ShapeError\<close>.
\<close>

definition same_shape2 :: "mat \<Rightarrow> mat \<Rightarrow> bool" where
  "same_shape2 a b \<longleftrightarrow> list_all2 (\<lambda>r s. length r = length s) a b"

definition same_shape3 :: "tensor3 \<Rightarrow> tensor3 \<Rightarrow> bool" where
  "same_shape3 a b \<longleftrightarrow> list_all2 same_shape2 a b"

definition residual_add :: "tensor3 \<Rightarrow> tensor3 \<Rightarrow> error + tensor3" where
  "residual_add x y = (if same_shape3 x y then Inr (add3 x y) else Inl ShapeError)"

definition mul_channels :: "vec \<Rightarrow> tensor3 \<Rightarrow> error + tensor3" where
  "mul_channels g y =
     (if \<exists>m \<in> set y. \<exists>r \<in> set m. length r \<noteq> length g then Inl ShapeError
      else Inr (map (map (\<lambda>r. map2 (*) g r)) y))"

section \<open>Transformer block (beit.py, class Block)\<close>

record Block =
  norm1 :: LayerNorm
  attn :: Attention
  drop_path :: drop_path_module
  norm2 :: LayerNorm
  mlp :: Mlp
  gamma_1 :: "vec option"
  gamma_2 :: "vec option"

text \<open>
  \<open>Block.__init__\<close>. \<open>init_values\<close> is \<open>None\<close> or a number; \<open>if init_values:\<close> is true for a
  number other than zero. \<open>int(dim * mlp_ratio)\<close> is taken for a ratio that is not negative.
\<close>

definition Block_init ::
  "runtime \<Rightarrow> nat \<Rightarrow> nat \<Rightarrow> real \<Rightarrow> bool \<Rightarrow> real \<Rightarrow> real \<Rightarrow> real \<Rightarrow> real option \<Rightarrow> real
     \<Rightarrow> (nat \<times> nat) option \<Rightarrow> nat option \<Rightarrow> error + Block" where
  "Block_init rt dim' n_heads mlp_ratio qkv_bias drop_p attn_drop_p drop_path_p init_values norm_eps
       win attn_head_dim =
     bind_result (Attention_init rt dim' n_heads qkv_bias attn_drop_p drop_p win attn_head_dim)
       (\<lambda>a. let mlp_hidden_dim = nat \<lfloor>real dim' * mlp_ratio\<rfloor>
             in Inr
               \<lparr> norm1 = nn_LayerNorm dim' norm_eps,
                 attn = a,
                 drop_path = (if drop_path_p > 0.0 then DropPath drop_path_p else Identity),
                 norm2 = nn_LayerNorm dim' norm_eps,
                 mlp = Mlp_init rt dim' mlp_hidden_dim drop_p,
                 gamma_1 =
                   (case init_values of
                      Some v \<Rightarrow> if v \<noteq> 0 then Some (map (\<lambda>c. v * c) (ones dim')) else None
                    | None \<Rightarrow> None),
                 gamma_2 =
                   (case init_values of
                      Some v \<Rightarrow> if v \<noteq> 0 then Some (map (\<lambda>c. v * c) (ones dim')) else None
                    | None \<Rightarrow> None) \<rparr>)"

text \<open>
  \<open>Block.forward\<close>. In the branch for a present \<open>gamma_1\<close> the source multiplies by
  \<open>gamma_2\<close> without a test; a missing \<open>gamma_2\<close> there is a \<open>TypeError\<close>.
\<close>

definition Block_forward ::
  "runtime \<Rightarrow> Block \<Rightarrow> tensor3 \<Rightarrow> ndarray option \<Rightarrow> error + tensor3" where
  "Block_forward rt self x shared_rel_pos_bias =
     (case gamma_1 self of
        None \<Rightarrow>
          bind_result (LayerNorm_forward (norm1 self) x) (\<lambda>h.
          bind_result (Attention_forward rt (attn self) h shared_rel_pos_bias) (\<lambda>a.
          bind_result (residual_add x (drop_path_forward rt (drop_path self) a)) (\<lambda>x.
          bind_result (LayerNorm_forward (norm2 self) x) (\<lambda>h.
          bind_result (Mlp_forward rt (mlp self) h) (\<lambda>m.
          residual_add x (drop_path_forward rt (drop_path self) m))))))
      | Some g1 \<Rightarrow>
          bind_result (LayerNorm_forward (norm1 self) x) (\<lambda>h.
          bind_result (Attention_forward rt (attn self) h shared_rel_pos_bias) (\<lambda>a.
          bind_result (mul_channels g1 a) (\<lambda>a.
          bind_result (residual_add x (drop_path_forward rt (drop_path self) a)) (\<lambda>x.
          bind_result (LayerNorm_forward (norm2 self) x) (\<lambda>h.
          bind_result (Mlp_forward rt (mlp self) h) (\<lambda>m.
          bind_result (case gamma_2 self of None \<Rightarrow> Inl TypeError | Some g2 \<Rightarrow> mul_channels g2 m)
            (\<lambda>m.
          residual_add x (drop_path_forward rt (drop_path self) m)))))))))"

text \<open>
  \<open>named_parameters\<close>: the parameters registered on the module itself, in the order of
  registration, then those of its child modules under their attribute names. A buffer
  (\<open>k_bias\<close>, \<open>relative_position_index\<close>) and an attribute set to \<open>None\<close> are not parameters.
\<close>

definition prefixed :: "string \<Rightarrow> string list \<Rightarrow> string list" where
  "prefixed p names = map (\<lambda>n. p @ ''.'' @ n) names"

definition Linear_parameters :: "Linear \<Rightarrow> string list" where
  "Linear_parameters l = ''weight'' # (if bias l \<noteq> None then [''bias''] else [])"

definition LayerNorm_parameters :: "LayerNorm \<Rightarrow> string list" where
  "LayerNorm_parameters lnorm = [''weight'', ''bias'']"

definition Attention_parameters :: "Attention \<Rightarrow> string list" where
  "Attention_parameters a =
     (if q_bias a \<noteq> None then [''q_bias''] else [])
     @ (if v_bias a \<noteq> None then [''v_bias''] else [])
     @ (if relative_position_bias_table a \<noteq> None then [''relative_position_bias_table''] else [])
     @ prefixed ''qkv'' (Linear_parameters (qkv a))
     @ prefixed ''proj'' (Linear_parameters (proj a))"

definition Mlp_parameters :: "Mlp \<Rightarrow> string list" where
  "Mlp_parameters m =
     prefixed ''fc1'' (Linear_parameters (fc1 m)) @ prefixed ''fc2'' (Linear_parameters (fc2 m))"

definition Block_parameters :: "Block \<Rightarrow> string list" where
  "Block_parameters b =
     (if gamma_1 b \<noteq> None then [''gamma_1''] else [])
     @ (if gamma_2 b \<noteq> None then [''gamma_2''] else [])
     @ prefixed ''norm1'' (LayerNorm_parameters (norm1 b))
     @ prefixed ''attn'' (Attention_parameters (attn b))
     @ prefixed ''norm2'' (LayerNorm_parameters (norm2 b))
     @ prefixed ''mlp'' (Mlp_parameters (mlp b))"

section \<open>Shared relative position bias (beit.py, class RelativePositionBias)\<close>

record RelativePositionBias =
  rpb_window_size :: "nat \<times> nat"
  rpb_window_area :: nat
  rpb_table :: mat
  rpb_index :: "int list list"

definition RelativePositionBias_init :: "nat \<times> nat \<Rightarrow> nat \<Rightarrow> RelativePositionBias" where
  "RelativePositionBias_init win n_heads =
     \<lparr> rpb_window_size = win,
       rpb_window_area = fst win * snd win,
       rpb_table = zeros_mat (nat (num_relative_distance_of win)) n_heads,
       rpb_index = gen_relative_position_index win \<rparr>"

definition RelativePositionBias_forward :: "RelativePositionBias \<Rightarrow> error + ndarray" where
  "RelativePositionBias_forward self =
     gather_rel_pos_bias (rpb_table self) (rpb_index self) (rpb_window_size self)"

section \<open>Model assembly (beit.py, class Beit)\<close>

text \<open>
  Modelled from the spec: \<open>PatchEmbed\<close> is defined in flowvision.layers. The spec: it ``maps a
  fixed-size image into a sequence of fixed-dimension token vectors plus a 2D grid shape'',
  with \<open>num_patches\<close> and \<open>grid_size\<close> derived from \<open>img_size\<close> and \<open>patch_size\<close>. Its forward
  function and the names of its parameters are taken as given.
\<close>

record PatchEmbed =
  grid_size :: "nat \<times> nat"
  num_patches :: nat
  patch_forward :: "tensor4 \<Rightarrow> error + tensor3"
  patch_parameters :: "string list"

definition PatchEmbed_init :: "runtime \<Rightarrow> nat \<Rightarrow> nat \<Rightarrow> error + PatchEmbed" where
  "PatchEmbed_init rt img_size patch_size =
     (if patch_size = 0 then Inl ZeroDivisionError
      else Inr \<lparr> grid_size = (img_size div patch_size, img_size div patch_size),
                 num_patches = (img_size div patch_size) * (img_size div patch_size),
                 patch_forward = patch_embed_apply rt,
                 patch_parameters = patch_embed_names rt \<rparr>)"

datatype norm_module = Norm LayerNorm | Norm_Identity

datatype head_module = Head Linear | Head_Identity

record Beit =
  num_classes :: int
  global_pool :: string
  embed_dim :: nat
  patch_embed :: PatchEmbed
  cls_token :: vec
  pos_embed :: "mat option"
  pos_drop :: real
  rel_pos_bias :: "RelativePositionBias option"
  blocks :: "Block list"
  norm_m :: norm_module
  fc_norm :: "LayerNorm option"
  head :: head_module

text \<open>The keyword arguments of \<open>Beit.__init__\<close>, and their defaults.\<close>

record Beit_args =
  arg_img_size :: nat
  arg_patch_size :: nat
  arg_in_chans :: nat
  arg_num_classes :: int
  arg_global_pool :: string
  arg_embed_dim :: nat
  arg_depth :: nat
  arg_num_heads :: nat
  arg_mlp_ratio :: real
  arg_qkv_bias :: bool
  arg_drop_rate :: real
  arg_attn_drop_rate :: real
  arg_drop_path_rate :: real
  arg_norm_eps :: real
  arg_init_values :: "real option"
  arg_use_abs_pos_emb :: bool
  arg_use_rel_pos_bias :: bool
  arg_use_shared_rel_pos_bias :: bool
  arg_head_init_scale :: real

definition Beit_defaults :: Beit_args where
  "Beit_defaults =
     \<lparr> arg_img_size = 224, arg_patch_size = 16, arg_in_chans = 3, arg_num_classes = 1000,
       arg_global_pool = ''avg'', arg_embed_dim = 768, arg_depth = 12, arg_num_heads = 12,
       arg_mlp_ratio = 4.0, arg_qkv_bias = True, arg_drop_rate = 0.0, arg_attn_drop_rate = 0.0,
       arg_drop_path_rate = 0.0, arg_norm_eps = 1 / 1000000, arg_init_values = None,
       arg_use_abs_pos_emb = True, arg_use_rel_pos_bias = False,
       arg_use_shared_rel_pos_bias = False, arg_head_init_scale = 0.001 \<rparr>"


definition float32_exponent :: "real \<Rightarrow> int" where
  "float32_exponent a =
     (case find (\<lambda>e. 2 powi e \<le> a) (rev [-126..127]) of Some e \<Rightarrow> e | None \<Rightarrow> -126)"

definition round_half_even :: "real \<Rightarrow> int" where
  "round_half_even y =
     (let f = \<lfloor>y\<rfloor>; d = y - of_int f
      in if d < 1 / 2 then f else if 1 / 2 < d then f + 1 else if even f then f else f + 1)"

definition to_float32 :: "real \<Rightarrow> real" where
  "to_float32 x =
     (let u = 2 powi (float32_exponent \<bar>x\<bar> - 23) in of_int (round_half_even (x / u)) * u)"

text \<open>
  \<open>flow.linspace(start, end, steps)\<close>, a function of the tensor runtime: a \<open>float32\<close> tensor of
  \<open>steps\<close> values evenly spaced from \<open>start\<close> to \<open>end\<close>, both included; a single step gives
  \<open>start\<close>. Each entry is the \<open>float32\<close> nearest to the evenly spaced value, and \<open>x.item()\<close>
  reads it back as a Python float of the same value.
\<close>

definition linspace :: "real \<Rightarrow> real \<Rightarrow> nat \<Rightarrow> real list" where
  "linspace start stop steps =
     (if steps = 1 then [to_float32 start]
      else map (\<lambda>i. to_float32 (start + real i * ((stop - start) / real (steps - 1))))
             [0..<steps])"

text \<open>A list comprehension whose elements may raise: the first error is the result.\<close>

fun sequence_results :: "(error + 'a) list \<Rightarrow> error + 'a list" where
  "sequence_results [] = Inr []"
| "sequence_results (r # rs) =
     (case r of
        Inl e \<Rightarrow> Inl e
      | Inr v \<Rightarrow> (case sequence_results rs of Inl e \<Rightarrow> Inl e | Inr vs \<Rightarrow> Inr (v # vs)))"

text \<open>The modules of \<open>Beit.__init__\<close>, before any weight initialisation.\<close>

definition Beit_modules :: "runtime \<Rightarrow> Beit_args \<Rightarrow> error + Beit" where
  "Beit_modules rt args =
     bind_result
       (PatchEmbed_init rt (arg_img_size args) (arg_patch_size args))
       (\<lambda>pe.
     let dpr = linspace 0 (arg_drop_path_rate args) (arg_depth args) in
     bind_result
       (sequence_results
          (map (\<lambda>i. Block_init rt (arg_embed_dim args) (arg_num_heads args) (arg_mlp_ratio args)
                       (arg_qkv_bias args) (arg_drop_rate args) (arg_attn_drop_rate args)
                       (dpr ! i) (arg_init_values args) (arg_norm_eps args)
                       (if arg_use_rel_pos_bias args then Some (grid_size pe) else None) None)
               [0..<arg_depth args]))
       (\<lambda>bs.
     let use_fc_norm = (arg_global_pool args = ''avg'') in
     Inr \<lparr> num_classes = arg_num_classes args,
           global_pool = arg_global_pool args,
           embed_dim = arg_embed_dim args,
           patch_embed = pe,
           cls_token = zeros (arg_embed_dim args),
           pos_embed =
             (if arg_use_abs_pos_emb args
              then Some (zeros_mat (num_patches pe + 1) (arg_embed_dim args)) else None),
           pos_drop = arg_drop_rate args,
           rel_pos_bias =
             (if arg_use_shared_rel_pos_bias args
              then Some (RelativePositionBias_init (grid_size pe) (arg_num_heads args))
              else None),
           blocks = bs,
           norm_m =
             (if use_fc_norm then Norm_Identity
              else Norm (nn_LayerNorm (arg_embed_dim args) (arg_norm_eps args))),
           fc_norm =
             (if use_fc_norm then Some (nn_LayerNorm (arg_embed_dim args) (arg_norm_eps args))
              else None),
           head =
             (if arg_num_classes args > 0
              then Head (nn_Linear rt (arg_embed_dim args) (nat (arg_num_classes args)) True)
              else Head_Identity) \<rparr>))"

text \<open>\<open>trunc_normal_(t, std)\<close> fills \<open>t\<close> with draws; \<open>nn.init.constant_(t, c)\<close> fills it with \<open>c\<close>.\<close>

definition trunc_normal_mat :: "runtime \<Rightarrow> real \<Rightarrow> mat \<Rightarrow> mat" where
  "trunc_normal_mat rt std t =
     map (\<lambda>j. map (\<lambda>i. trunc_normal_sample rt std j i) [0..<length (t ! j)]) [0..<length t]"

definition trunc_normal_vec :: "runtime \<Rightarrow> real \<Rightarrow> vec \<Rightarrow> vec" where
  "trunc_normal_vec rt std t = map (\<lambda>i. trunc_normal_sample rt std 0 i) [0..<length t]"

definition constant_vec :: "vec \<Rightarrow> real \<Rightarrow> vec" where
  "constant_vec t c = map (\<lambda>_. c) t"

text \<open>\<open>Beit._init_weights\<close> on a linear layer and on a layer norm.\<close>

definition init_weights_Linear :: "runtime \<Rightarrow> Linear \<Rightarrow> Linear" where
  "init_weights_Linear rt m =
     m\<lparr> weight := trunc_normal_mat rt 0.02 (weight m),
        bias := (case bias m of Some b \<Rightarrow> Some (constant_vec b 0) | None \<Rightarrow> None) \<rparr>"

definition init_weights_LayerNorm :: "LayerNorm \<Rightarrow> LayerNorm" where
  "init_weights_LayerNorm m =
     m\<lparr> norm_bias := constant_vec (norm_bias m) 0, norm_weight := constant_vec (norm_weight m) 1.0 \<rparr>"

text \<open>
  \<open>self.apply(self._init_weights)\<close> visits every module of the tree. The linear layers and
  layer norms of a block are \<open>norm1\<close>, \<open>attn.qkv\<close>, \<open>attn.proj\<close>, \<open>norm2\<close>, \<open>mlp.fc1\<close> and
  \<open>mlp.fc2\<close>; the patch embedding is taken to hold neither kind of module.
\<close>

definition apply_init_weights_Block :: "runtime \<Rightarrow> Block \<Rightarrow> Block" where
  "apply_init_weights_Block rt b =
     b\<lparr> norm1 := init_weights_LayerNorm (norm1 b),
        attn := (attn b)\<lparr> qkv := init_weights_Linear rt (qkv (attn b)),
                          proj := init_weights_Linear rt (proj (attn b)) \<rparr>,
        norm2 := init_weights_LayerNorm (norm2 b),
        mlp := (mlp b)\<lparr> fc1 := init_weights_Linear rt (fc1 (mlp b)),
                        fc2 := init_weights_Linear rt (fc2 (mlp b)) \<rparr> \<rparr>"

definition apply_init_weights :: "runtime \<Rightarrow> Beit \<Rightarrow> Beit" where
  "apply_init_weights rt self =
     self\<lparr> blocks := map (apply_init_weights_Block rt) (blocks self),
           norm_m := (case norm_m self of Norm n \<Rightarrow> Norm (init_weights_LayerNorm n)
                      | Norm_Identity \<Rightarrow> Norm_Identity),
           fc_norm := (case fc_norm self of Some n \<Rightarrow> Some (init_weights_LayerNorm n)
                       | None \<Rightarrow> None),
           head := (case head self of Head l \<Rightarrow> Head (init_weights_Linear rt l)
                    | Head_Identity \<Rightarrow> Head_Identity) \<rparr>"

text \<open>\<open>Beit.fix_init_weight\<close>\<close>

definition rescale :: "mat \<Rightarrow> nat \<Rightarrow> mat" where
  "rescale param layer_id = map (map (\<lambda>w. w / sqrt (2.0 * real layer_id))) param"

definition fix_init_weight_layer :: "nat \<Rightarrow> Block \<Rightarrow> Block" where
  "fix_init_weight_layer layer_id layer =
     layer\<lparr> attn := (attn layer)\<lparr> proj := (proj (attn layer))
                         \<lparr> weight := rescale (weight (proj (attn layer))) (layer_id + 1) \<rparr> \<rparr>,
            mlp := (mlp layer)\<lparr> fc2 := (fc2 (mlp layer))
                         \<lparr> weight := rescale (weight (fc2 (mlp layer))) (layer_id + 1) \<rparr> \<rparr> \<rparr>"

definition fix_init_weight :: "Beit \<Rightarrow> Beit" where
  "fix_init_weight self =
     self\<lparr> blocks := map (\<lambda>(layer_id, layer). fix_init_weight_layer layer_id layer)
                          (enumerate 0 (blocks self)) \<rparr>"

text \<open>
  The statements of \<open>Beit.__init__\<close> after \<open>self.apply(self._init_weights)\<close>. A linear head
  is built with a bias.
\<close>

definition init_after_apply :: "runtime \<Rightarrow> real \<Rightarrow> Beit \<Rightarrow> Beit" where
  "init_after_apply rt head_init_scale self =
     (let self = (case pos_embed self of
                    Some p \<Rightarrow> self\<lparr> pos_embed := Some (trunc_normal_mat rt 0.02 p) \<rparr>
                  | None \<Rightarrow> self);
          self = self\<lparr> cls_token := trunc_normal_vec rt 0.02 (cls_token self) \<rparr>;
          self = fix_init_weight self
      in case head self of
           Head l \<Rightarrow>
             self\<lparr> head := Head
               \<lparr> weight = map (map (\<lambda>w. w * head_init_scale)) (trunc_normal_mat rt 0.02 (weight l)),
                 bias = (case bias l of Some b \<Rightarrow> Some (map (\<lambda>w. w * head_init_scale) b)
                         | None \<Rightarrow> None) \<rparr> \<rparr>
         | Head_Identity \<Rightarrow> self)"

definition Beit_init :: "runtime \<Rightarrow> Beit_args \<Rightarrow> error + Beit" where
  "Beit_init rt args =
     bind_result (Beit_modules rt args)
       (\<lambda>self. Inr (init_after_apply rt (arg_head_init_scale args) (apply_init_weights rt self)))"

text \<open>Decimal digits of a natural number, for the names of the blocks.\<close>

fun string_of_nat :: "nat \<Rightarrow> string" where
  "string_of_nat n =
     (if n < 10 then [''0123456789'' ! n]
      else string_of_nat (n div 10) @ [''0123456789'' ! (n mod 10)])"

declare string_of_nat.simps [simp del]

definition Beit_named_parameters :: "Beit \<Rightarrow> string list" where
  "Beit_named_parameters self =
     [''cls_token'']
     @ (if pos_embed self \<noteq> None then [''pos_embed''] else [])
     @ prefixed ''patch_embed'' (patch_parameters (patch_embed self))
     @ (if rel_pos_bias self \<noteq> None
        then prefixed ''rel_pos_bias'' [''relative_position_bias_table''] else [])
     @ concat (map (\<lambda>(i, b). prefixed (''blocks.'' @ string_of_nat i) (Block_parameters b))
                   (enumerate 0 (blocks self)))
     @ (case norm_m self of Norm n \<Rightarrow> prefixed ''norm'' (LayerNorm_parameters n)
        | Norm_Identity \<Rightarrow> [])
     @ (case fc_norm self of Some n \<Rightarrow> prefixed ''fc_norm'' (LayerNorm_parameters n) | None \<Rightarrow> [])
     @ (case head self of Head l \<Rightarrow> prefixed ''head'' (Linear_parameters l) | Head_Identity \<Rightarrow> [])"

text \<open>\<open>sub in s\<close> on Python strings.\<close>

fun str_contains :: "string \<Rightarrow> string \<Rightarrow> bool" where
  "str_contains [] sub = (sub = [])"
| "str_contains (c # cs) sub = (take (length sub) (c # cs) = sub \<or> str_contains cs sub)"

definition no_weight_decay :: "Beit \<Rightarrow> string set" where
  "no_weight_decay self =
     fold (\<lambda>n nwd. if str_contains n ''relative_position_bias_table'' then insert n nwd else nwd)
       (Beit_named_parameters self) {''pos_embed'', ''cls_token''}"

definition reset_classifier :: "runtime \<Rightarrow> Beit \<Rightarrow> int \<Rightarrow> string option \<Rightarrow> Beit" where
  "reset_classifier rt self n_classes pool =
     (let self = self\<lparr> num_classes := n_classes \<rparr>;
          self = (case pool of Some g \<Rightarrow> self\<lparr> global_pool := g \<rparr> | None \<Rightarrow> self)
      in self\<lparr> head :=
           (if n_classes > 0 then Head (nn_Linear rt (embed_dim self) (nat n_classes) True)
            else Head_Identity) \<rparr>)"

text \<open>\<open>x[:, 0]\<close> and \<open>x[:, 1:].mean(dim=1)\<close> on a tensor \<open>(B, N, C)\<close>.\<close>

definition select_token_0 :: "tensor3 \<Rightarrow> error + mat" where
  "select_token_0 x = (if \<exists>m \<in> set x. m = [] then Inl IndexError else Inr (map hd x))"

definition mean_rows :: "mat \<Rightarrow> vec" where
  "mean_rows ts =
     map (\<lambda>c. sum_list (map (\<lambda>t. t ! c) ts) / real (length ts)) [0..<length (hd ts)]"

text \<open>
  The mean over no patch token is NaN in floating point and has no value in the reals: the
  model reports it as \<open>FloatNaN\<close>.
\<close>

definition mean_patch_tokens :: "tensor3 \<Rightarrow> error + mat" where
  "mean_patch_tokens x =
     (if \<exists>m \<in> set x. tl m = [] then Inl FloatNaN else Inr (map (\<lambda>m. mean_rows (tl m)) x))"

definition F_linear2 :: "mat \<Rightarrow> mat \<Rightarrow> vec option \<Rightarrow> error + mat" where
  "F_linear2 input w b =
     (if \<exists>r \<in> set input. \<exists>wr \<in> set w. length r \<noteq> length wr then Inl ShapeError
      else case b of
        None \<Rightarrow> Inr (map (\<lambda>r. map (dot r) w) input)
      | Some bs \<Rightarrow>
          if length bs \<noteq> length w then Inl ShapeError
          else Inr (map (\<lambda>r. map2 (+) (map (dot r) w) bs) input))"

definition head_forward :: "head_module \<Rightarrow> mat \<Rightarrow> error + mat" where
  "head_forward h x =
     (case h of Head l \<Rightarrow> F_linear2 x (weight l) (bias l) | Head_Identity \<Rightarrow> Inr x)"

definition forward_head :: "Beit \<Rightarrow> tensor3 \<Rightarrow> bool \<Rightarrow> error + mat" where
  "forward_head self x pre_logits =
     bind_result
       (case fc_norm self of
          Some n \<Rightarrow> bind_result (mean_patch_tokens x) (LayerNorm_forward2 n)
        | None \<Rightarrow> select_token_0 x)
       (\<lambda>x. if pre_logits then Inr x else head_forward (head self) x)"

text \<open>\<open>for blk in self.blocks: x = blk(x, shared_rel_pos_bias=rel_pos_bias)\<close>\<close>

fun run_blocks :: "runtime \<Rightarrow> Block list \<Rightarrow> ndarray option \<Rightarrow> tensor3 \<Rightarrow> error + tensor3" where
  "run_blocks rt [] rel x = Inr x"
| "run_blocks rt (blk # blks) rel x =
     bind_result (Block_forward rt blk x rel) (run_blocks rt blks rel)"

definition forward_features :: "runtime \<Rightarrow> Beit \<Rightarrow> tensor4 \<Rightarrow> error + tensor3" where
  "forward_features rt self img =
     bind_result (patch_forward (patch_embed self) img) (\<lambda>x.
     if \<exists>m \<in> set x. \<exists>r \<in> set m. length r \<noteq> length (cls_token self) then Inl ShapeError
     else
       let x = map (\<lambda>m. cls_token self # m) x in
       bind_result
         (case pos_embed self of
            Some p \<Rightarrow> if \<forall>m \<in> set x. same_shape2 m p then Inr (map (\<lambda>m. add2 m p) x)
                      else Inl ShapeError
          | None \<Rightarrow> Inr x) (\<lambda>x.
       let x = Dropout_forward3 rt (pos_drop self) x in
       bind_result
         (case rel_pos_bias self of
            Some r \<Rightarrow> bind_result (RelativePositionBias_forward r) (\<lambda>b. Inr (Some b))
          | None \<Rightarrow> Inr None) (\<lambda>rel.
       bind_result (run_blocks rt (blocks self) rel x) (\<lambda>x.
       case norm_m self of Norm n \<Rightarrow> LayerNorm_forward n x | Norm_Identity \<Rightarrow> Inr x))))"

definition forward :: "runtime \<Rightarrow> Beit \<Rightarrow> tensor4 \<Rightarrow> error + mat" where
  "forward rt self img =
     bind_result (forward_features rt self img) (\<lambda>x. forward_head self x False)"

text \<open>
  \<open>beit_base_patch16_224(pretrained=False, **kwargs)\<close>. The argument \<open>kwargs\<close> carries the
  keyword arguments the function does not fix (the defaults of \<open>Beit\<close> where the caller gives
  none). Loading pretrained weights replaces parameter values through the loader, which is
  not in beit.py; the function is modelled for \<open>pretrained=False\<close>.
\<close>

definition beit_base_patch16_224 :: "runtime \<Rightarrow> Beit_args \<Rightarrow> error + Beit" where
  "beit_base_patch16_224 rt kwargs =
     Beit_init rt
       (kwargs\<lparr> arg_patch_size := 16, arg_embed_dim := 768, arg_depth := 12, arg_num_heads := 12,
                arg_mlp_ratio := 4, arg_use_abs_pos_emb := False, arg_use_rel_pos_bias := True,
                arg_init_values := Some 0.1 \<rparr>)"

text \<open>A small configuration for concrete instances.\<close>

definition Beit_args_example :: Beit_args where
  "Beit_args_example =
     Beit_defaults\<lparr> arg_img_size := 2, arg_patch_size := 1, arg_num_classes := 3,
                    arg_embed_dim := 2, arg_depth := 3, arg_num_heads := 1,
                    arg_drop_path_rate := 1 / 5 \<rparr>"

section \<open>Properties of the relative position index\<close>

lemma length_concat_uniform:
  "\<forall>xs\<in>set xss. length xs = n \<Longrightarrow> length (concat xss) = length xss * n"
  by (induction xss) auto

lemma nth_concat_uniform:
  "\<forall>xs\<in>set xss. length xs = n \<Longrightarrow> i < length xss * n \<Longrightarrow>
   concat xss ! i = xss ! (i div n) ! (i mod n)"
proof (induction xss arbitrary: i)
  case Nil
  then show ?case by simp
next
  case (Cons xs xss)
  have n: "length xs = n" using Cons.prems(1) by simp
  have pos: "0 < n" using Cons.prems(2) by (cases n) auto
  show ?case
  proof (cases "i < n")
    case True
    then show ?thesis using n by (simp add: nth_append)
  next
    case False
    then have ge: "n \<le> i" by simp
    have lt: "i - n < length xss * n" using Cons.prems(2) ge by simp
    have ih: "concat xss ! (i - n) = xss ! ((i - n) div n) ! ((i - n) mod n)"
      using Cons.IH [of "i - n"] Cons.prems(1) lt by simp
    have d: "i div n = Suc ((i - n) div n)" using ge pos by (simp add: le_div_geq)
    have m: "i mod n = (i - n) mod n" using ge by (simp add: le_mod_geq)
    show ?thesis using False n ih d m by (simp add: nth_append)
  qed
qed


lemma cf_len: "length (flatten_1 (stack (meshgrid (arange H) (arange W)))) = 2"
  by (simp add: flatten_1_def stack_def)

lemma cf0_len: "length (flatten_1 (stack (meshgrid (arange H) (arange W))) ! 0) = H * W"
  by (simp add: flatten_1_def stack_def meshgrid_def arange_def length_concat_uniform [where n=W])
lemma cf1_len: "length (flatten_1 (stack (meshgrid (arange H) (arange W))) ! 1) = H * W"
  by (simp add: flatten_1_def stack_def meshgrid_def arange_def length_concat_uniform [where n=W])

lemma div_lt: "i < H * W \<Longrightarrow> i div W < (H::nat)"
  by (simp add: less_mult_imp_div_less)

lemma cf0_nth: "i < H * W \<Longrightarrow> flatten_1 (stack (meshgrid (arange H) (arange W))) ! 0 ! i = int (i div W)"
proof -
  assume a: "i < H * W"
  then have pos: "0 < W" by (cases W) auto
  have "concat (map (\<lambda>u. map (\<lambda>_. u) (arange W)) (arange H)) ! i
        = map (\<lambda>u. map (\<lambda>_. u) (arange W)) (arange H) ! (i div W) ! (i mod W)"
    by (rule nth_concat_uniform) (use a in \<open>auto simp: arange_def\<close>)
  then show ?thesis using a pos div_lt [OF a]
    by (simp add: flatten_1_def stack_def meshgrid_def arange_def)
qed

lemma cf1_nth: "i < H * W \<Longrightarrow> flatten_1 (stack (meshgrid (arange H) (arange W))) ! 1 ! i = int (i mod W)"
proof -
  assume a: "i < H * W"
  then have pos: "0 < W" by (cases W) auto
  have "concat (map (\<lambda>_. arange W) (arange H)) ! i
        = map (\<lambda>_. arange W) (arange H) ! (i div W) ! (i mod W)"
    by (rule nth_concat_uniform) (use a in \<open>auto simp: arange_def\<close>)
  then show ?thesis using a pos div_lt [OF a]
    by (simp add: flatten_1_def stack_def meshgrid_def arange_def)
qed

lemma relative_coords_nth:
  assumes "i < H * W" "j < H * W"
  shows "permute_120 (pairwise_diff (flatten_1 (stack (meshgrid (arange H) (arange W))))) ! i ! j
         = [int (i div W) - int (j div W), int (i mod W) - int (j mod W)]"
proof -
  let ?c = "flatten_1 (stack (meshgrid (arange H) (arange W)))"
  have l: "length ?c = 2" by (rule cf_len)
  have l0: "length (?c ! 0) = H * W" by (rule cf0_len)
  have l1: "length (?c ! 1) = H * W" by (rule cf1_len)
  have two: "[0..<2] = [0, 1]" by (simp add: upt_rec)
  have p0: "pairwise_diff ?c ! 0 ! i ! j = int (i div W) - int (j div W)"
    using assms l l0 cf0_nth [of i H W] cf0_nth [of j H W] by (simp add: pairwise_diff_def)
  have p1: "pairwise_diff ?c ! 1 ! i ! j = int (i mod W) - int (j mod W)"
    using assms l l1 cf1_nth [of i H W] cf1_nth [of j H W] by (simp add: pairwise_diff_def)
  have s0: "length (pairwise_diff ?c) = 2" using l by (simp add: pairwise_diff_def)
  have s1: "length (pairwise_diff ?c ! 0) = H * W" using l l0 by (simp add: pairwise_diff_def)
  have pos: "0 < H * W" using assms by (cases H; cases W; simp)
  have s2: "length (pairwise_diff ?c ! 0 ! 0) = H * W" using l l0 pos by (simp add: pairwise_diff_def)
  show ?thesis
    unfolding permute_120_def using assms s0 s1 s2 p0 p1 two by simp
qed

lemma relative_coords_length:
  "length (permute_120 (pairwise_diff (flatten_1 (stack (meshgrid (arange H) (arange W)))))) = H * W"
proof -
  let ?c = "flatten_1 (stack (meshgrid (arange H) (arange W)))"
  have "length (pairwise_diff ?c ! 0) = H * W" using cf_len [of H W] cf0_len [of H W] by (simp add: pairwise_diff_def)
  then show ?thesis by (simp add: permute_120_def)
qed

lemma relative_coords_row_length:
  assumes "i < H * W"
  shows "length (permute_120 (pairwise_diff (flatten_1 (stack (meshgrid (arange H) (arange W))))) ! i) = H * W"
proof -
  let ?c = "flatten_1 (stack (meshgrid (arange H) (arange W)))"
  have s1: "length (pairwise_diff ?c ! 0) = H * W" using cf_len [of H W] cf0_len [of H W] by (simp add: pairwise_diff_def)
  have pos: "0 < H * W" using assms by (cases H; cases W; simp)
  have s2: "length (pairwise_diff ?c ! 0 ! 0) = H * W" using cf_len [of H W] cf0_len [of H W] pos by (simp add: pairwise_diff_def)
  show ?thesis using assms s1 s2 by (simp add: permute_120_def)
qed

lemma bucket_sum_nth:
  assumes "i < H * W" "j < H * W"
  shows "sum_last (mul_last 0 (2 * int W - 1) (add_last 1 (int W - 1) (add_last 0 (int H - 1)
           (permute_120 (pairwise_diff (flatten_1 (stack (meshgrid (arange H) (arange W))))))))) ! i ! j
         = (int (i div W) - int (j div W) + (int H - 1)) * (2 * int W - 1)
           + (int (i mod W) - int (j mod W) + (int W - 1))"
  using assms relative_coords_nth [OF assms] relative_coords_length [of H W]
    relative_coords_row_length [OF assms(1)]
  by (simp add: sum_last_def mul_last_def add_last_def)

lemma zeros2_length: "length (zeros2 m n) = m"
  by (simp add: zeros2_def)

lemma zeros2_nth: "i < m \<Longrightarrow> zeros2 m n ! i = replicate n 0"
  by (simp add: zeros2_def)

lemma assign_from_1_1_length: "length (assign_from_1_1 t s) = length t"
  by (simp add: assign_from_1_1_def)

lemma assign_from_1_1_nth:
  "i < length t \<Longrightarrow> assign_from_1_1 t s ! i
     = map (\<lambda>j. if 1 \<le> i \<and> 1 \<le> j then s ! (i - 1) ! (j - 1) else t ! i ! j) [0..<length (t ! i)]"
  by (simp add: assign_from_1_1_def)

lemma assign_row_0_length: "length (assign_row_0 t c) = length t"
  by (simp add: assign_row_0_def)

lemma assign_row_0_nth:
  "i < length t \<Longrightarrow> assign_row_0 t c ! i = (if i = 0 then map (\<lambda>_. c) (t ! 0) else t ! i)"
  by (auto simp: assign_row_0_def)

lemma assign_col_0_length: "length (assign_col_0 t c) = length t"
  by (simp add: assign_col_0_def)

lemma assign_col_0_nth: "i < length t \<Longrightarrow> assign_col_0 t c ! i = (t ! i)[0 := c]"
  by (simp add: assign_col_0_def)

lemma assign_0_0_length: "length (assign_0_0 t c) = length t"
  by (simp add: assign_0_0_def)

lemma assign_0_0_nth:
  "i < length t \<Longrightarrow> assign_0_0 t c ! i = (if i = 0 then (t ! 0)[0 := c] else t ! i)"
  by (auto simp: assign_0_0_def)

lemmas assign_simps = zeros2_length zeros2_nth assign_from_1_1_length assign_from_1_1_nth
  assign_row_0_length assign_row_0_nth assign_col_0_length assign_col_0_nth
  assign_0_0_length assign_0_0_nth

lemma gen_length: "length (gen_relative_position_index (H, W)) = H * W + 1"
  by (simp add: gen_relative_position_index_def Let_def assign_simps)

lemma gen_row_length:
  "i < H * W + 1 \<Longrightarrow> length (gen_relative_position_index (H, W) ! i) = H * W + 1"
  by (simp add: gen_relative_position_index_def Let_def assign_simps del: upt_Suc)

lemma gen_interior:
  assumes "i < H * W" "j < H * W"
  shows "gen_relative_position_index (H, W) ! (i + 1) ! (j + 1)
         = (int (i div W) - int (j div W) + (int H - 1)) * (2 * int W - 1)
           + (int (i mod W) - int (j mod W) + (int W - 1))"
  using assms bucket_sum_nth [OF assms]
  by (simp add: gen_relative_position_index_def Let_def assign_simps del: upt_Suc)

lemma gen_row0:
  assumes "1 \<le> j" "j \<le> H * W"
  shows "gen_relative_position_index (H, W) ! 0 ! j = num_relative_distance_of (H, W) - 3"
  using assms
  by (simp add: gen_relative_position_index_def Let_def assign_simps del: upt_Suc)

lemma gen_col0:
  assumes "1 \<le> i" "i \<le> H * W"
  shows "gen_relative_position_index (H, W) ! i ! 0 = num_relative_distance_of (H, W) - 2"
  using assms
  by (simp add: gen_relative_position_index_def Let_def assign_simps del: upt_Suc)

lemma gen_00:
  shows "gen_relative_position_index (H, W) ! 0 ! 0 = num_relative_distance_of (H, W) - 1"
  by (simp add: gen_relative_position_index_def Let_def assign_simps del: upt_Suc)

lemma bucket_inj:
  fixes a b a' b' m :: int
  assumes "a * m + b = a' * m + b'" "0 \<le> b" "b < m" "0 \<le> b'" "b' < m"
  shows "a = a' \<and> b = b'"
proof -
  have e1: "(a * m + b) div m = a" using assms(2,3) by (simp add: div_pos_pos_trivial)
  have e2: "(a' * m + b') div m = a'" using assms(4,5) by (simp add: div_pos_pos_trivial)
  have "a = (a * m + b) div m" by (simp only: e1)
  also have "\<dots> = (a' * m + b') div m" by (simp only: assms(1))
  also have "\<dots> = a'" by (simp only: e2)
  finally have "a = a'" .
  then show ?thesis using assms(1) by simp
qed

text \<open>
  Claim C1. For a window \<open>(H, W)\<close> with \<open>H, W > 0\<close> the table has shape
  \<open>(H*W+1) \<times> (H*W+1)\<close>. Grid cell \<open>i\<close> (row-major) is \<open>(i div W, i mod W)\<close>; the entry at
  \<open>(i+1, j+1)\<close> is \<open>(\<Delta>row + H - 1) * (2W - 1) + (\<Delta>col + W - 1)\<close> for the signed offset of cells
  \<open>i\<close> and \<open>j\<close>, and two pairs of cells with different offsets get different entries. Row 0
  holds \<open>num_relative_distance - 3\<close>, column 0 holds \<open>num_relative_distance - 2\<close>, cell
  \<open>(0, 0)\<close> holds \<open>num_relative_distance - 1\<close>, with
  \<open>num_relative_distance = (2H - 1) * (2W - 1) + 3\<close>.
\<close>

theorem gen_relative_position_index_table:
  assumes "0 < H" "0 < W"
  shows "length (gen_relative_position_index (H, W)) = H * W + 1
    \<and> (\<forall>r < H * W + 1. length (gen_relative_position_index (H, W) ! r) = H * W + 1)
    \<and> (\<forall>i < H * W. \<forall>j < H * W.
          gen_relative_position_index (H, W) ! (i + 1) ! (j + 1)
          = (int (i div W) - int (j div W) + (int H - 1)) * (2 * int W - 1)
            + (int (i mod W) - int (j mod W) + (int W - 1)))
    \<and> (\<forall>i < H * W. \<forall>j < H * W. \<forall>i' < H * W. \<forall>j' < H * W.
          (int (i div W) - int (j div W), int (i mod W) - int (j mod W))
            \<noteq> (int (i' div W) - int (j' div W), int (i' mod W) - int (j' mod W))
          \<longrightarrow> gen_relative_position_index (H, W) ! (i + 1) ! (j + 1)
              \<noteq> gen_relative_position_index (H, W) ! (i' + 1) ! (j' + 1))
    \<and> (\<forall>j. 1 \<le> j \<and> j \<le> H * W
          \<longrightarrow> gen_relative_position_index (H, W) ! 0 ! j = num_relative_distance_of (H, W) - 3)
    \<and> (\<forall>i. 1 \<le> i \<and> i \<le> H * W
          \<longrightarrow> gen_relative_position_index (H, W) ! i ! 0 = num_relative_distance_of (H, W) - 2)
    \<and> gen_relative_position_index (H, W) ! 0 ! 0 = num_relative_distance_of (H, W) - 1
    \<and> num_relative_distance_of (H, W) = (2 * int H - 1) * (2 * int W - 1) + 3"
proof -
  have distinct_ids: "gen_relative_position_index (H, W) ! (i + 1) ! (j + 1)
              \<noteq> gen_relative_position_index (H, W) ! (i' + 1) ! (j' + 1)"
    if b: "i < H * W" "j < H * W" "i' < H * W" "j' < H * W"
      and ne: "(int (i div W) - int (j div W), int (i mod W) - int (j mod W))
            \<noteq> (int (i' div W) - int (j' div W), int (i' mod W) - int (j' mod W))"
    for i j i' j'
  proof
    assume eq: "gen_relative_position_index (H, W) ! (i + 1) ! (j + 1)
              = gen_relative_position_index (H, W) ! (i' + 1) ! (j' + 1)"
    have m: "i mod W < W" "j mod W < W" "i' mod W < W" "j' mod W < W"
      using assms(2) by simp_all
    have e: "(int (i div W) - int (j div W) + (int H - 1)) * (2 * int W - 1)
               + (int (i mod W) - int (j mod W) + (int W - 1))
           = (int (i' div W) - int (j' div W) + (int H - 1)) * (2 * int W - 1)
               + (int (i' mod W) - int (j' mod W) + (int W - 1))"
      using eq gen_interior [OF b(1,2)] gen_interior [OF b(3,4)] by simp
    have "int (i div W) - int (j div W) + (int H - 1) = int (i' div W) - int (j' div W) + (int H - 1)
        \<and> int (i mod W) - int (j mod W) + (int W - 1) = int (i' mod W) - int (j' mod W) + (int W - 1)"
      by (rule bucket_inj [OF e]) (use m in linarith)+
    then show False using ne by simp
  qed
  show ?thesis
    using gen_length [of H W] gen_row_length [of _ H W] gen_interior [of _ H W] distinct_ids
      gen_row0 [of _ H W] gen_col0 [of _ H W] gen_00 [of H W]
    by (simp add: num_relative_distance_of_def)
qed

theorem gen_relative_position_index_table_witness:
  "0 < (2::nat) \<and> 0 < (3::nat)
    \<and> length (gen_relative_position_index (2, 3)) = 7
    \<and> gen_relative_position_index (2, 3) ! (0 + 1) ! (5 + 1) = 0
    \<and> gen_relative_position_index (2, 3) ! 0 ! 4 = 15
    \<and> gen_relative_position_index (2, 3) ! 4 ! 0 = 16
    \<and> gen_relative_position_index (2, 3) ! 0 ! 0 = 17"
proof -
  have t: "length (gen_relative_position_index (2, 3)) = 2 * 3 + 1
    \<and> (\<forall>r < 2 * 3 + 1. length (gen_relative_position_index (2, 3) ! r) = 2 * 3 + 1)
    \<and> (\<forall>i < 2 * 3. \<forall>j < 2 * 3.
          gen_relative_position_index (2, 3) ! (i + 1) ! (j + 1)
          = (int (i div 3) - int (j div 3) + (int 2 - 1)) * (2 * int 3 - 1)
            + (int (i mod 3) - int (j mod 3) + (int 3 - 1)))
    \<and> (\<forall>i < 2 * 3. \<forall>j < 2 * 3. \<forall>i' < 2 * 3. \<forall>j' < 2 * 3.
          (int (i div 3) - int (j div 3), int (i mod 3) - int (j mod 3))
            \<noteq> (int (i' div 3) - int (j' div 3), int (i' mod 3) - int (j' mod 3))
          \<longrightarrow> gen_relative_position_index (2, 3) ! (i + 1) ! (j + 1)
              \<noteq> gen_relative_position_index (2, 3) ! (i' + 1) ! (j' + 1))
    \<and> (\<forall>j. 1 \<le> j \<and> j \<le> 2 * 3
          \<longrightarrow> gen_relative_position_index (2, 3) ! 0 ! j = num_relative_distance_of (2, 3) - 3)
    \<and> (\<forall>i. 1 \<le> i \<and> i \<le> 2 * 3
          \<longrightarrow> gen_relative_position_index (2, 3) ! i ! 0 = num_relative_distance_of (2, 3) - 2)
    \<and> gen_relative_position_index (2, 3) ! 0 ! 0 = num_relative_distance_of (2, 3) - 1
    \<and> num_relative_distance_of (2, 3) = (2 * int 2 - 1) * (2 * int 3 - 1) + 3"
    by (rule gen_relative_position_index_table) simp_all
  have n: "num_relative_distance_of (2, 3) = 18"
    by (simp add: num_relative_distance_of_def)
  note c2 = t [THEN conjunct2, THEN conjunct2]
  note c4 = c2 [THEN conjunct2, THEN conjunct2]
  have interior: "gen_relative_position_index (2, 3) ! (0 + 1) ! (5 + 1) = 0"
    using c2 [THEN conjunct1, rule_format, of 0 5] by simp
  have row: "gen_relative_position_index (2, 3) ! 0 ! 4 = 15"
    using c4 [THEN conjunct1, rule_format, of 4] n by simp
  have col: "gen_relative_position_index (2, 3) ! 4 ! 0 = 16"
    using c4 [THEN conjunct2, THEN conjunct1, rule_format, of 4] n by simp
  have corner: "gen_relative_position_index (2, 3) ! 0 ! 0 = 17"
    using c4 [THEN conjunct2, THEN conjunct2, THEN conjunct1] n by simp
  have len: "length (gen_relative_position_index (2, 3)) = 7"
    using t [THEN conjunct1] by simp
  show ?thesis using len interior row col corner by simp
qed

section \<open>Properties of Attention\<close>

lemma map2_add_zeros:
  fixes ys :: "real list"
  shows "length ys = n \<Longrightarrow> map2 (+) ys (zeros n) = ys"
  unfolding zeros_def
proof (induction ys arbitrary: n)
  case Nil
  then show ?case by simp
next
  case (Cons y ys)
  then obtain k where "n = Suc k" by (cases n) auto
  with Cons show ?case by simp
qed

lemma F_linear_zero_bias:
  "length w = n \<Longrightarrow> F_linear x w (Some (zeros n)) = F_linear x w None"
  by (simp add: F_linear_def map2_add_zeros zeros_def [symmetric]) (simp add: zeros_def)

lemma zeros_append: "zeros a @ zeros b @ zeros c = zeros (a + b + c)"
  by (simp add: zeros_def replicate_add [symmetric] add.assoc)

lemma Attention_init_bias_relation:
  assumes "Attention_init rt dim' nh False ad pd ws ahd = Inr a0"
    and "Attention_init rt dim' nh True ad pd ws ahd = Inr a1"
  shows "\<exists>n. a1 = a0\<lparr>q_bias := Some (zeros n), k_bias := Some (zeros n), v_bias := Some (zeros n)\<rparr>
           \<and> q_bias a0 = None \<and> length (weight (qkv a0)) = n * 3"
  using assms
  by (auto simp: Attention_init_def Let_def nn_Linear_def split: if_splits)

lemma pre_softmax_zero_bias:
  assumes "q_bias a = None" "length w = n * 3"
  shows "Attention_pre_softmax (a\<lparr>qkv := \<lparr>weight = w, bias = None\<rparr>, q_bias := Some (zeros n), k_bias := Some (zeros n), v_bias := Some (zeros n)\<rparr>) x s
       = Attention_pre_softmax (a\<lparr>qkv := \<lparr>weight = w, bias = None\<rparr>\<rparr>) x s"
proof -
  have "F_linear x w (Some (zeros n @ zeros n @ zeros n)) = F_linear x w None"
    using assms(2) by (simp add: zeros_append F_linear_zero_bias)
  then show ?thesis
    using assms(1)
    by (simp add: Attention_pre_softmax_def Attention_get_rel_pos_bias_def bind_result_def Let_def
          cong: option.case_cong sum.case_cong prod.case_cong if_cong)
qed

lemma forward_zero_bias:
  assumes "q_bias a = None" "length w = n * 3"
  shows "Attention_forward rt (a\<lparr>qkv := \<lparr>weight = w, bias = None\<rparr>, q_bias := Some (zeros n), k_bias := Some (zeros n), v_bias := Some (zeros n)\<rparr>) x s
       = Attention_forward rt (a\<lparr>qkv := \<lparr>weight = w, bias = None\<rparr>\<rparr>) x s"
  by (simp add: Attention_forward_def pre_softmax_zero_bias [OF assms])

text \<open>
  Claim C3. Two Attention modules built from the same arguments, one with \<open>qkv_bias=False\<close>
  and one with \<open>qkv_bias=True\<close> (whose \<open>q_bias\<close> and \<open>v_bias\<close> are the zeros the constructor
  stores, next to the zero \<open>k_bias\<close> buffer), compute the same forward result in inference mode
  for every input and every value of the shared weights \<open>qkv.weight\<close>, \<open>proj\<close> and the
  relative position bias table.
\<close>

theorem Attention_qkv_bias_disabled_eq_zero_bias:
  assumes "Attention_init rt dim' nh False ad pd ws ahd = Inr a0"
    and "Attention_init rt dim' nh True ad pd ws ahd = Inr a1"
    and "length w = length (weight (qkv a0))"
    and "\<not> training rt'"
  shows "Attention_forward rt'
           (a0\<lparr>qkv := \<lparr>weight = w, bias = None\<rparr>, proj := p, relative_position_bias_table := tb\<rparr>) x s
       = Attention_forward rt'
           (a1\<lparr>qkv := \<lparr>weight = w, bias = None\<rparr>, proj := p, relative_position_bias_table := tb\<rparr>) x s"
proof -
  obtain n where a1: "a1 = a0\<lparr>q_bias := Some (zeros n), k_bias := Some (zeros n), v_bias := Some (zeros n)\<rparr>"
    and q0: "q_bias a0 = None" and len: "length (weight (qkv a0)) = n * 3"
    using Attention_init_bias_relation [OF assms(1,2)] by blast
  let ?b = "a0\<lparr>proj := p, relative_position_bias_table := tb\<rparr>"
  have e0: "a0\<lparr>qkv := \<lparr>weight = w, bias = None\<rparr>, proj := p, relative_position_bias_table := tb\<rparr>
          = ?b\<lparr>qkv := \<lparr>weight = w, bias = None\<rparr>\<rparr>"
    by simp
  have e1: "a1\<lparr>qkv := \<lparr>weight = w, bias = None\<rparr>, proj := p, relative_position_bias_table := tb\<rparr>
          = ?b\<lparr>qkv := \<lparr>weight = w, bias = None\<rparr>, q_bias := Some (zeros n),
               k_bias := Some (zeros n), v_bias := Some (zeros n)\<rparr>"
    by (simp add: a1)
  have "Attention_forward rt' (?b\<lparr>qkv := \<lparr>weight = w, bias = None\<rparr>, q_bias := Some (zeros n), k_bias := Some (zeros n), v_bias := Some (zeros n)\<rparr>) x s
       = Attention_forward rt' (?b\<lparr>qkv := \<lparr>weight = w, bias = None\<rparr>\<rparr>) x s"
    by (rule forward_zero_bias) (use q0 len assms(3) in simp_all)
  then show ?thesis by (simp only: e0 e1)
qed

theorem Attention_qkv_bias_disabled_eq_zero_bias_witness:
  "Attention_init rt_eval 2 1 False 0 0 None None
     = Inr (projr (Attention_init rt_eval 2 1 False 0 0 None None))
   \<and> Attention_init rt_eval 2 1 True 0 0 None None
     = Inr (projr (Attention_init rt_eval 2 1 True 0 0 None None))
   \<and> length [[1, 0], [0, 1], [1, 1], [2, 0], [0, 2], [1, 3::real]]
     = length (weight (qkv (projr (Attention_init rt_eval 2 1 False 0 0 None None))))
   \<and> \<not> training rt_eval
   \<and> Attention_forward rt_eval
         ((projr (Attention_init rt_eval 2 1 False 0 0 None None))
            \<lparr>qkv := \<lparr>weight = [[1, 0], [0, 1], [1, 1], [2, 0], [0, 2], [1, 3]], bias = None\<rparr>,
             proj := \<lparr>weight = [[1, 2], [3, 4]], bias = Some [5, 6]\<rparr>,
             relative_position_bias_table := None\<rparr>)
         [[[1, 2], [3, 4]]] None
     = Attention_forward rt_eval
         ((projr (Attention_init rt_eval 2 1 True 0 0 None None))
            \<lparr>qkv := \<lparr>weight = [[1, 0], [0, 1], [1, 1], [2, 0], [0, 2], [1, 3]], bias = None\<rparr>,
             proj := \<lparr>weight = [[1, 2], [3, 4]], bias = Some [5, 6]\<rparr>,
             relative_position_bias_table := None\<rparr>)
         [[[1, 2], [3, 4]]] None"
proof -
  have h0: "Attention_init rt_eval 2 1 False 0 0 None None
     = Inr (projr (Attention_init rt_eval 2 1 False 0 0 None None))"
    by (simp add: Attention_init_def Let_def)
  have h1: "Attention_init rt_eval 2 1 True 0 0 None None
     = Inr (projr (Attention_init rt_eval 2 1 True 0 0 None None))"
    by (simp add: Attention_init_def Let_def)
  have h2: "length [[1, 0], [0, 1], [1, 1], [2, 0], [0, 2], [1, 3::real]]
     = length (weight (qkv (projr (Attention_init rt_eval 2 1 False 0 0 None None))))"
    by (simp add: Attention_init_def Let_def nn_Linear_def)
  have h3: "\<not> training rt_eval" by (simp add: rt_eval_def)
  show ?thesis
    using h0 h1 h2 h3 Attention_qkv_bias_disabled_eq_zero_bias [OF h0 h1 h2 h3]
    by simp
qed

lemma shape3_Some:
  "shape3 x = Some (B, N, C) \<Longrightarrow> length x = B \<and> length (hd x) = N \<and> (\<forall>m \<in> set x. length m = N)"
proof -
  assume a: "shape3 x = Some (B, N, C)"
  have c: "x \<noteq> [] \<and> hd x \<noteq> [] \<and> (\<forall>m \<in> set x. length m = length (hd x))
         \<and> (\<forall>m \<in> set x. \<forall>r \<in> set m. length r = length (hd (hd x)))"
    using a unfolding shape3_def by (metis option.distinct(1))
  then have "Some (length x, length (hd x), length (hd (hd x))) = Some (B, N, C)"
    using a unfolding shape3_def by (metis option.distinct(1))
  then have "length x = B" "length (hd x) = N" by simp_all
  then show ?thesis using c by metis
qed

lemma shape3_N: "shape3 x = Some (B, N, C) \<Longrightarrow> N = length (hd x)"
  using shape3_Some by blast

lemma bind_result_Inl: "bind_result (Inl e) f = Inl e"
  by (simp add: bind_result_def)

lemma bind_result_Inr: "bind_result (Inr v) f = f v"
  by (simp add: bind_result_def)

lemma bind_result_assoc:
  "bind_result (bind_result m f) g = bind_result m (\<lambda>a. bind_result (f a) g)"
  by (cases m) (simp_all add: bind_result_def)

lemma bind_result_if:
  "bind_result (if c then a else b) f = (if c then bind_result a f else bind_result b f)"
  by simp

lemma bind_result_eq_Inr:
  "bind_result m f = Inr y \<longleftrightarrow> (\<exists>a. m = Inr a \<and> f a = Inr y)"
  by (cases m) (simp_all add: bind_result_def)

subsection \<open>Indexing and broadcasting\<close>

lemma length_indices: "length (indices sh) = prod_list sh"
proof (induction sh)
  case Nil
  then show ?case by simp
next
  case (Cons d ds)
  have "length (concat (map (\<lambda>i. map ((#) i) (indices ds)) [0..<d]))
        = length (map (\<lambda>i. map ((#) i) (indices ds)) [0..<d]) * prod_list ds"
    by (rule length_concat_uniform) (simp add: Cons.IH)
  then show ?case by simp
qed

lemma indices_offset:
  "list_all2 (<) idx sh \<Longrightarrow> offset sh idx < prod_list sh \<and> indices sh ! offset sh idx = idx"
proof (induction sh arbitrary: idx)
  case Nil
  then show ?case by simp
next
  case (Cons d ds)
  from Cons.prems obtain i js where idx: "idx = i # js" and i: "i < d" and js: "list_all2 (<) js ds"
    by (cases idx) auto
  let ?n = "prod_list ds"
  have ih: "offset ds js < ?n" "indices ds ! offset ds js = js" using Cons.IH [OF js] by simp_all
  have lt: "i * ?n + offset ds js < d * ?n"
  proof -
    have "i * ?n + offset ds js < i * ?n + ?n" using ih(1) by simp
    also have "\<dots> = Suc i * ?n" by simp
    also have "\<dots> \<le> d * ?n" using i by (intro mult_le_mono1) simp
    finally show ?thesis .
  qed
  have dv: "(i * ?n + offset ds js) div ?n = i" "(i * ?n + offset ds js) mod ?n = offset ds js"
    using ih(1) by simp_all
  let ?xss = "map (\<lambda>i. map ((#) i) (indices ds)) [0..<d]"
  have "concat ?xss ! (i * ?n + offset ds js)
        = ?xss ! ((i * ?n + offset ds js) div ?n) ! ((i * ?n + offset ds js) mod ?n)"
    by (rule nth_concat_uniform) (use lt in \<open>simp_all add: length_indices\<close>)
  also have "\<dots> = i # js" using i ih by (simp add: dv length_indices)
  finally show ?case using lt idx by simp
qed

lemma nd_get_tabulate:
  "in_shape idx sh \<Longrightarrow> nd_get (tabulate sh f) idx = f idx"
  using indices_offset [of idx sh]
  by (simp add: nd_get_def tabulate_def in_shape_def length_indices)

lemma operand_index_rev_self:
  "list_all2 (<) i a \<Longrightarrow> list_all2 (<) (operand_index_rev a i) a"
proof (induction a arbitrary: i)
  case Nil
  then show ?case by simp
next
  case (Cons d ds)
  then obtain k js where "i = k # js" "k < d" "list_all2 (<) js ds" by (cases i) auto
  with Cons.IH show ?case by simp
qed

lemma operand_index_rev_idem:
  "operand_index_rev a (operand_index_rev a i) = operand_index_rev a i"
  by (induction a i rule: operand_index_rev.induct) auto

lemma operand_index_rev_left:
  "broadcast_rev a b = Some r \<Longrightarrow> list_all2 (<) i r \<Longrightarrow> list_all2 (<) (operand_index_rev a i) a"
proof (induction a b arbitrary: r i rule: broadcast_rev.induct)
  case (1 ys)
  then show ?case by simp
next
  case (2 x xs)
  then show ?case using operand_index_rev_self [of i "x # xs"] by simp
next
  case (3 x xs y ys)
  from "3.prems"(1) obtain r' where r': "broadcast_rev xs ys = Some r'"
    and r: "r = (if x = y \<or> y = 1 then x else y) # r'" and c: "x = y \<or> y = 1 \<or> x = 1"
    by (auto split: if_splits)
  from "3.prems"(2) r obtain k js where i: "i = k # js"
    and k: "k < (if x = y \<or> y = 1 then x else y)" and js: "list_all2 (<) js r'"
    by (cases i) auto
  have "list_all2 (<) (operand_index_rev xs js) xs"
  proof (cases "x = y \<or> y = 1")
    case True
    show ?thesis by (rule "3.IH"(1) [OF True r' js])
  next
    case False
    then have "x = 1" using c by simp
    then show ?thesis using "3.IH"(2) [OF False _ r' js] by simp
  qed
  moreover have "(if x = 1 then 0 else k) < x" using k c by (auto split: if_splits)
  ultimately show ?case by (simp add: i)
qed

lemma operand_index_rev_right:
  "broadcast_rev a b = Some r \<Longrightarrow> list_all2 (<) i r \<Longrightarrow> list_all2 (<) (operand_index_rev b i) b"
proof (induction a b arbitrary: r i rule: broadcast_rev.induct)
  case (1 ys)
  then show ?case using operand_index_rev_self [of i ys] by simp
next
  case (2 x xs)
  then show ?case by simp
next
  case (3 x xs y ys)
  from "3.prems"(1) obtain r' where r': "broadcast_rev xs ys = Some r'"
    and r: "r = (if x = y \<or> y = 1 then x else y) # r'" and c: "x = y \<or> y = 1 \<or> x = 1"
    by (auto split: if_splits)
  from "3.prems"(2) r obtain k js where i: "i = k # js"
    and k: "k < (if x = y \<or> y = 1 then x else y)" and js: "list_all2 (<) js r'"
    by (cases i) auto
  have "list_all2 (<) (operand_index_rev ys js) ys"
  proof (cases "x = y \<or> y = 1")
    case True
    show ?thesis by (rule "3.IH"(1) [OF True r' js])
  next
    case False
    then have "x = 1" using c by simp
    then show ?thesis using "3.IH"(2) [OF False _ r' js] by simp
  qed
  moreover have "(if y = 1 then 0 else k) < y" using k c by (auto split: if_splits)
  ultimately show ?case by (simp add: i)
qed

lemma operand_index_rev_comp_left:
  "broadcast_rev a b = Some r \<Longrightarrow>
   operand_index_rev a (operand_index_rev r i) = operand_index_rev a i"
proof (induction a b arbitrary: r i rule: broadcast_rev.induct)
  case (1 ys)
  then show ?case by simp
next
  case (2 x xs)
  then show ?case using operand_index_rev_idem [of "x # xs" i] by simp
next
  case (3 x xs y ys)
  from "3.prems"(1) obtain r' where r': "broadcast_rev xs ys = Some r'"
    and r: "r = (if x = y \<or> y = 1 then x else y) # r'" and c: "x = y \<or> y = 1 \<or> x = 1"
    by (auto split: if_splits)
  show ?case
  proof (cases i)
    case Nil
    then show ?thesis by (simp add: r)
  next
    case (Cons k js)
    have t: "operand_index_rev xs (operand_index_rev r' js) = operand_index_rev xs js"
    proof (cases "x = y \<or> y = 1")
      case True
      show ?thesis by (rule "3.IH"(1) [OF True r'])
    next
      case False
      then have "x = 1" using c by simp
      then show ?thesis using "3.IH"(2) [OF False _ r'] by simp
    qed
    show ?thesis using t c by (auto simp: Cons r)
  qed
qed

lemma operand_index_rev_comp_right:
  "broadcast_rev a b = Some r \<Longrightarrow>
   operand_index_rev b (operand_index_rev r i) = operand_index_rev b i"
proof (induction a b arbitrary: r i rule: broadcast_rev.induct)
  case (1 ys)
  then show ?case using operand_index_rev_idem [of ys i] by simp
next
  case (2 x xs)
  then show ?case by simp
next
  case (3 x xs y ys)
  from "3.prems"(1) obtain r' where r': "broadcast_rev xs ys = Some r'"
    and r: "r = (if x = y \<or> y = 1 then x else y) # r'" and c: "x = y \<or> y = 1 \<or> x = 1"
    by (auto split: if_splits)
  show ?case
  proof (cases i)
    case Nil
    then show ?thesis by (simp add: r)
  next
    case (Cons k js)
    have t: "operand_index_rev ys (operand_index_rev r' js) = operand_index_rev ys js"
    proof (cases "x = y \<or> y = 1")
      case True
      show ?thesis by (rule "3.IH"(1) [OF True r'])
    next
      case False
      then have "x = 1" using c by simp
      then show ?thesis using "3.IH"(2) [OF False _ r'] by simp
    qed
    show ?thesis using t c by (auto simp: Cons r)
  qed
qed

lemma broadcast_shapes_Some:
  "broadcast_shapes a b = Some r \<longleftrightarrow> broadcast_rev (rev a) (rev b) = Some (rev r)"
  by (auto simp: broadcast_shapes_def)

lemma in_shape_rev: "in_shape i sh \<longleftrightarrow> list_all2 (<) (rev i) (rev sh)"
  by (simp add: in_shape_def list_all2_rev)

lemma operand_index_left:
  "broadcast_shapes a b = Some r \<Longrightarrow> in_shape i r \<Longrightarrow> in_shape (operand_index a i) a"
  unfolding broadcast_shapes_Some in_shape_rev operand_index_def rev_rev_ident
  by (rule operand_index_rev_left)

lemma operand_index_right:
  "broadcast_shapes a b = Some r \<Longrightarrow> in_shape i r \<Longrightarrow> in_shape (operand_index b i) b"
  unfolding broadcast_shapes_Some in_shape_rev operand_index_def rev_rev_ident
  by (rule operand_index_rev_right)

lemma operand_index_comp_left:
  "broadcast_shapes a b = Some r \<Longrightarrow> operand_index a (operand_index r i) = operand_index a i"
  unfolding broadcast_shapes_Some operand_index_def rev_rev_ident
  by (simp add: operand_index_rev_comp_left)

lemma operand_index_comp_right:
  "broadcast_shapes a b = Some r \<Longrightarrow> operand_index b (operand_index r i) = operand_index b i"
  unfolding broadcast_shapes_Some operand_index_def rev_rev_ident
  by (simp add: operand_index_rev_comp_right)

lemma nd_add_eq_Inr:
  "nd_add a b = Inr c \<longleftrightarrow>
     (\<exists>sh. broadcast_shapes (nd_shape a) (nd_shape b) = Some sh
         \<and> c = tabulate sh (\<lambda>idx. nd_get a (operand_index (nd_shape a) idx)
                                     + nd_get b (operand_index (nd_shape b) idx)))"
  by (auto simp: nd_add_def split: option.splits)

lemma nd_add_shape:
  "nd_add a b = Inr c \<Longrightarrow> broadcast_shapes (nd_shape a) (nd_shape b) = Some (nd_shape c)"
  by (auto simp: nd_add_eq_Inr tabulate_def)

lemma nd_add_get:
  assumes "nd_add a b = Inr c" "in_shape idx (nd_shape c)"
  shows "nd_get c idx = nd_get a (operand_index (nd_shape a) idx)
                      + nd_get b (operand_index (nd_shape b) idx)"
proof -
  from assms(1) obtain sh where sh: "broadcast_shapes (nd_shape a) (nd_shape b) = Some sh"
    and c: "c = tabulate sh (\<lambda>idx. nd_get a (operand_index (nd_shape a) idx)
                                     + nd_get b (operand_index (nd_shape b) idx))"
    unfolding nd_add_eq_Inr by blast
  have "nd_shape c = sh" by (simp add: c tabulate_def)
  then have "in_shape idx sh" using assms(2) by simp
  then show ?thesis unfolding c by (rule nd_get_tabulate)
qed

subsection \<open>The two bias sums\<close>

lemma pre_softmax_decompose:
  "Attention_pre_softmax self x s =
     bind_result (Attention_pre_softmax (self\<lparr>relative_position_bias_table := None\<rparr>) x None)
       (\<lambda>(scores, v).
          bind_result
            (if relative_position_bias_table self \<noteq> None
             then bind_result (Attention_get_rel_pos_bias self) (nd_add scores)
             else Inr scores)
            (\<lambda>att.
          bind_result
            (case s of Some b \<Rightarrow> nd_add att b | None \<Rightarrow> Inr att)
            (\<lambda>att. Inr (att, v))))"
proof (cases "shape3 x")
  case None
  then show ?thesis by (simp add: Attention_pre_softmax_def bind_result_Inl)
next
  case (Some sh)
  then obtain B N C where sh: "shape3 x = Some (B, N, C)" by (cases sh) auto
  show ?thesis
    unfolding Attention_pre_softmax_def
    by (simp add: sh bind_result_assoc bind_result_if bind_result_Inl bind_result_Inr Let_def
          cong: if_cong option.case_cong prod.case_cong)
qed

lemma pre_softmax_plain_shape:
  assumes "relative_position_bias_table a = None"
    and "Attention_pre_softmax a x None = Inr (scores, v)"
  shows "nd_shape scores = [length x, num_heads a, length (hd x), length (hd x)]"
proof -
  obtain B N C where sh: "shape3 x = Some (B, N, C)"
    using assms(2) by (cases "shape3 x") (auto simp: Attention_pre_softmax_def)
  have N: "N = length (hd x)" using sh by (rule shape3_N)
  have B: "length x = B" using shape3_Some [OF sh] by simp
  from assms obtain t where "scores = of_tensor4 [B, num_heads a, N, N] t"
    unfolding Attention_pre_softmax_def
    by (auto simp: sh bind_result_eq_Inr bind_result_Inr Let_def split: if_splits cong: if_cong)
  then show ?thesis by (simp add: of_tensor4_def N B)
qed

text \<open>
  Claim C4. When the module owns a relative position bias table and the caller also passes a
  shared bias, the scores that enter the softmax are the plain scores (those of the same module
  without a table and without a shared bias, of shape \<open>(B, heads, N, N)\<close>) plus the gather of
  the own table plus the shared bias: the two sums \<open>attn + bias\<close> are taken one after the
  other, each with broadcasting, and every entry of the result is the sum of the three entries
  that broadcasting assigns to it.
\<close>

theorem Attention_biases_cumulative:
  assumes "relative_position_bias_table self = Some t"
    and "Attention_pre_softmax self x (Some b) = Inr (att, v)"
  shows "\<exists>scores own mid.
           Attention_pre_softmax (self\<lparr>relative_position_bias_table := None\<rparr>) x None
             = Inr (scores, v)
         \<and> nd_shape scores = [length x, num_heads self, length (hd x), length (hd x)]
         \<and> Attention_get_rel_pos_bias self = Inr own
         \<and> nd_add scores own = Inr mid
         \<and> nd_add mid b = Inr att
         \<and> broadcast_shapes (nd_shape scores) (nd_shape own) = Some (nd_shape mid)
         \<and> broadcast_shapes (nd_shape mid) (nd_shape b) = Some (nd_shape att)
         \<and> (\<forall>idx. in_shape idx (nd_shape att) \<longrightarrow>
               nd_get att idx
               = nd_get scores (operand_index (nd_shape scores) idx)
                 + nd_get own (operand_index (nd_shape own) idx)
                 + nd_get b (operand_index (nd_shape b) idx))"
proof -
  let ?plain = "self\<lparr>relative_position_bias_table := None\<rparr>"
  from assms(2) obtain scores own mid where
    p: "Attention_pre_softmax ?plain x None = Inr (scores, v)"
    and g: "Attention_get_rel_pos_bias self = Inr own"
    and m: "nd_add scores own = Inr mid"
    and a: "nd_add mid b = Inr att"
    by (subst (asm) pre_softmax_decompose)
       (auto simp: assms(1) bind_result_eq_Inr)
  have s: "nd_shape scores = [length x, num_heads self, length (hd x), length (hd x)]"
    using pre_softmax_plain_shape [OF _ p] by simp
  have b1: "broadcast_shapes (nd_shape scores) (nd_shape own) = Some (nd_shape mid)"
    using m by (rule nd_add_shape)
  have b2: "broadcast_shapes (nd_shape mid) (nd_shape b) = Some (nd_shape att)"
    using a by (rule nd_add_shape)
  have e: "nd_get att idx
               = nd_get scores (operand_index (nd_shape scores) idx)
                 + nd_get own (operand_index (nd_shape own) idx)
                 + nd_get b (operand_index (nd_shape b) idx)"
    if i: "in_shape idx (nd_shape att)" for idx
  proof -
    have "nd_get att idx = nd_get mid (operand_index (nd_shape mid) idx)
                         + nd_get b (operand_index (nd_shape b) idx)"
      using a i by (rule nd_add_get)
    moreover have "in_shape (operand_index (nd_shape mid) idx) (nd_shape mid)"
      using b2 i by (rule operand_index_left)
    then have "nd_get mid (operand_index (nd_shape mid) idx)
        = nd_get scores (operand_index (nd_shape scores) (operand_index (nd_shape mid) idx))
        + nd_get own (operand_index (nd_shape own) (operand_index (nd_shape mid) idx))"
      using m by (rule nd_add_get [rotated])
    ultimately show ?thesis
      by (simp add: operand_index_comp_left [OF b1] operand_index_comp_right [OF b1])
  qed
  show ?thesis
    using p s g m a b1 b2 e by (intro exI [of _ scores] exI [of _ own] exI [of _ mid]) simp
qed

theorem Attention_biases_cumulative_witness:
  "relative_position_bias_table Attention_example = Some [[1], [2], [3], [4]]
   \<and> Attention_pre_softmax (Attention_example\<lparr>relative_position_bias_table := None\<rparr>)
         [[[1], [2]]] None
       = Inr (\<lparr>nd_shape = [1, 1, 2, 2], nd_data = [2, 4, 4, 8]\<rparr>,
              \<lparr>nd_shape = [1, 1, 2, 1], nd_data = [3, 6]\<rparr>)
   \<and> Attention_get_rel_pos_bias Attention_example
       = Inr \<lparr>nd_shape = [1, 1, 2, 2], nd_data = [4, 2, 3, 1]\<rparr>
   \<and> Attention_pre_softmax Attention_example [[[1], [2]]]
         (Some \<lparr>nd_shape = [1, 1, 1], nd_data = [10]\<rparr>)
       = Inr (\<lparr>nd_shape = [1, 1, 2, 2], nd_data = [16, 16, 17, 19]\<rparr>,
              \<lparr>nd_shape = [1, 1, 2, 1], nd_data = [3, 6]\<rparr>)
   \<and> (\<exists>scores own mid.
         Attention_pre_softmax (Attention_example\<lparr>relative_position_bias_table := None\<rparr>)
           [[[1], [2]]] None
           = Inr (scores, \<lparr>nd_shape = [1, 1, 2, 1], nd_data = [3, 6]\<rparr>)
       \<and> nd_shape scores
           = [length [[[1], [2::real]]], num_heads Attention_example,
              length (hd [[[1], [2::real]]]), length (hd [[[1], [2::real]]])]
       \<and> Attention_get_rel_pos_bias Attention_example = Inr own
       \<and> nd_add scores own = Inr mid
       \<and> nd_add mid \<lparr>nd_shape = [1, 1, 1], nd_data = [10]\<rparr>
           = Inr \<lparr>nd_shape = [1, 1, 2, 2], nd_data = [16, 16, 17, 19]\<rparr>
       \<and> broadcast_shapes (nd_shape scores) (nd_shape own) = Some (nd_shape mid)
       \<and> broadcast_shapes (nd_shape mid) (nd_shape \<lparr>nd_shape = [1, 1, 1], nd_data = [10::real]\<rparr>)
           = Some (nd_shape \<lparr>nd_shape = [1, 1, 2, 2], nd_data = [16, 16, 17, 19::real]\<rparr>)
       \<and> (\<forall>idx. in_shape idx (nd_shape \<lparr>nd_shape = [1, 1, 2, 2], nd_data = [16, 16, 17, 19::real]\<rparr>) \<longrightarrow>
             nd_get \<lparr>nd_shape = [1, 1, 2, 2], nd_data = [16, 16, 17, 19]\<rparr> idx
             = nd_get scores (operand_index (nd_shape scores) idx)
               + nd_get own (operand_index (nd_shape own) idx)
               + nd_get \<lparr>nd_shape = [1, 1, 1], nd_data = [10]\<rparr>
                   (operand_index (nd_shape \<lparr>nd_shape = [1, 1, 1], nd_data = [10::real]\<rparr>) idx)))
   \<and> Attention_pre_softmax Attention_example [[[1], [2]]]
         (Some \<lparr>nd_shape = [2, 1, 1, 2], nd_data = [10, 20, 30, 40]\<rparr>)
       = Inr (\<lparr>nd_shape = [2, 1, 2, 2], nd_data = [16, 26, 17, 29, 36, 46, 37, 49]\<rparr>,
              \<lparr>nd_shape = [1, 1, 2, 1], nd_data = [3, 6]\<rparr>)
   \<and> (\<exists>scores own mid.
         Attention_pre_softmax (Attention_example\<lparr>relative_position_bias_table := None\<rparr>)
           [[[1], [2]]] None
           = Inr (scores, \<lparr>nd_shape = [1, 1, 2, 1], nd_data = [3, 6]\<rparr>)
       \<and> nd_shape scores
           = [length [[[1], [2::real]]], num_heads Attention_example,
              length (hd [[[1], [2::real]]]), length (hd [[[1], [2::real]]])]
       \<and> Attention_get_rel_pos_bias Attention_example = Inr own
       \<and> nd_add scores own = Inr mid
       \<and> nd_add mid \<lparr>nd_shape = [2, 1, 1, 2], nd_data = [10, 20, 30, 40]\<rparr>
           = Inr \<lparr>nd_shape = [2, 1, 2, 2], nd_data = [16, 26, 17, 29, 36, 46, 37, 49]\<rparr>
       \<and> broadcast_shapes (nd_shape scores) (nd_shape own) = Some (nd_shape mid)
       \<and> broadcast_shapes (nd_shape mid)
             (nd_shape \<lparr>nd_shape = [2, 1, 1, 2], nd_data = [10, 20, 30, 40::real]\<rparr>)
           = Some (nd_shape \<lparr>nd_shape = [2, 1, 2, 2],
                             nd_data = [16, 26, 17, 29, 36, 46, 37, 49::real]\<rparr>)
       \<and> (\<forall>idx. in_shape idx (nd_shape \<lparr>nd_shape = [2, 1, 2, 2],
                                        nd_data = [16, 26, 17, 29, 36, 46, 37, 49::real]\<rparr>) \<longrightarrow>
             nd_get \<lparr>nd_shape = [2, 1, 2, 2], nd_data = [16, 26, 17, 29, 36, 46, 37, 49]\<rparr> idx
             = nd_get scores (operand_index (nd_shape scores) idx)
               + nd_get own (operand_index (nd_shape own) idx)
               + nd_get \<lparr>nd_shape = [2, 1, 1, 2], nd_data = [10, 20, 30, 40]\<rparr>
                   (operand_index
                      (nd_shape \<lparr>nd_shape = [2, 1, 1, 2], nd_data = [10, 20, 30, 40::real]\<rparr>) idx)))"
proof -
  have h0: "relative_position_bias_table Attention_example = Some [[1], [2], [3], [4]]"
    by (simp add: Attention_example_def)
  have p: "Attention_pre_softmax (Attention_example\<lparr>relative_position_bias_table := None\<rparr>)
         [[[1], [2]]] None
       = Inr (\<lparr>nd_shape = [1, 1, 2, 2], nd_data = [2, 4, 4, 8]\<rparr>,
              \<lparr>nd_shape = [1, 1, 2, 1], nd_data = [3, 6]\<rparr>)"
    by code_simp
  have g: "Attention_get_rel_pos_bias Attention_example
       = Inr \<lparr>nd_shape = [1, 1, 2, 2], nd_data = [4, 2, 3, 1]\<rparr>"
    by code_simp
  have h1: "Attention_pre_softmax Attention_example [[[1], [2]]]
         (Some \<lparr>nd_shape = [1, 1, 1], nd_data = [10]\<rparr>)
       = Inr (\<lparr>nd_shape = [1, 1, 2, 2], nd_data = [16, 16, 17, 19]\<rparr>,
              \<lparr>nd_shape = [1, 1, 2, 1], nd_data = [3, 6]\<rparr>)"
    by code_simp
  have h2: "Attention_pre_softmax Attention_example [[[1], [2]]]
         (Some \<lparr>nd_shape = [2, 1, 1, 2], nd_data = [10, 20, 30, 40]\<rparr>)
       = Inr (\<lparr>nd_shape = [2, 1, 2, 2], nd_data = [16, 26, 17, 29, 36, 46, 37, 49]\<rparr>,
              \<lparr>nd_shape = [1, 1, 2, 1], nd_data = [3, 6]\<rparr>)"
    by code_simp
  show ?thesis
    by (intro conjI h0 p g h1 h2 Attention_biases_cumulative [OF h0 h1]
          Attention_biases_cumulative [OF h0 h2])
qed
section \<open>Properties of Block\<close>

lemma Attention_init_Inr:
  "0 < nh \<Longrightarrow> 0 < (case ahd of Some d \<Rightarrow> d | None \<Rightarrow> dim' div nh) \<Longrightarrow>
   \<exists>a. Attention_init rt dim' nh qb ad pd ws ahd = Inr a"
  by (simp add: Attention_init_def Let_def)

lemma Block_init_Inr:
  "0 < nh \<Longrightarrow> 0 < (case ahd of Some d \<Rightarrow> d | None \<Rightarrow> dim' div nh) \<Longrightarrow>
   \<exists>b. Block_init rt dim' nh mr qb dr ad dp iv e ws ahd = Inr b"
proof -
  assume "0 < nh" "0 < (case ahd of Some d \<Rightarrow> d | None \<Rightarrow> dim' div nh)"
  then obtain a where "Attention_init rt dim' nh qb ad dr ws ahd = Inr a"
    using Attention_init_Inr by blast
  then show ?thesis by (simp add: Block_init_def bind_result_def Let_def)
qed

lemma Block_init_fields:
  assumes "Block_init rt dim' nh mr qb dr ad dp iv e ws ahd = Inr blk"
  shows "gamma_1 blk = (case iv of Some v \<Rightarrow> if v \<noteq> 0 then Some (replicate dim' v) else None | None \<Rightarrow> None)"
    and "gamma_2 blk = gamma_1 blk"
    and "drop_path blk = (if dp > 0 then DropPath dp else Identity)"
  using assms
  by (auto simp: Block_init_def bind_result_eq_Inr Let_def ones_def split: option.splits)

lemma mul_channels_eq_Inr:
  "mul_channels g y = Inr z \<longleftrightarrow>
     (\<forall>m \<in> set y. \<forall>r \<in> set m. length r = length g) \<and> z = map (map (map2 (*) g)) y"
  by (auto simp: mul_channels_def)

lemma not_in_prefixed: "p \<noteq> [] \<Longrightarrow> hd p \<noteq> c \<Longrightarrow> c # cs \<notin> set (prefixed p names)"
  by (cases p) (auto simp: prefixed_def)

lemma residual_add_eq_Inr:
  "residual_add x y = Inr z \<longleftrightarrow> same_shape3 x y \<and> z = add3 x y"
  by (auto simp: residual_add_def)

lemma Block_forward_plain:
  assumes "gamma_1 blk = None"
  shows "Block_forward rt blk x s = Inr y \<longleftrightarrow>
     (\<exists>h a x1 h2 m.
        LayerNorm_forward (norm1 blk) x = Inr h
      \<and> Attention_forward rt (attn blk) h s = Inr a
      \<and> same_shape3 x (drop_path_forward rt (drop_path blk) a)
      \<and> x1 = add3 x (drop_path_forward rt (drop_path blk) a)
      \<and> LayerNorm_forward (norm2 blk) x1 = Inr h2
      \<and> Mlp_forward rt (mlp blk) h2 = Inr m
      \<and> same_shape3 x1 (drop_path_forward rt (drop_path blk) m)
      \<and> y = add3 x1 (drop_path_forward rt (drop_path blk) m))"
  unfolding Block_forward_def
  by (simp add: assms bind_result_eq_Inr residual_add_eq_Inr)

lemma Block_forward_gated:
  assumes "gamma_1 blk = Some g1" "gamma_2 blk = Some g2"
  shows "Block_forward rt blk x s = Inr y \<longleftrightarrow>
     (\<exists>h a x1 h2 m.
        LayerNorm_forward (norm1 blk) x = Inr h
      \<and> Attention_forward rt (attn blk) h s = Inr a
      \<and> (\<forall>t \<in> set a. \<forall>r \<in> set t. length r = length g1)
      \<and> same_shape3 x (drop_path_forward rt (drop_path blk) (map (map (map2 (*) g1)) a))
      \<and> x1 = add3 x (drop_path_forward rt (drop_path blk) (map (map (map2 (*) g1)) a))
      \<and> LayerNorm_forward (norm2 blk) x1 = Inr h2
      \<and> Mlp_forward rt (mlp blk) h2 = Inr m
      \<and> (\<forall>t \<in> set m. \<forall>r \<in> set t. length r = length g2)
      \<and> same_shape3 x1 (drop_path_forward rt (drop_path blk) (map (map (map2 (*) g2)) m))
      \<and> y = add3 x1 (drop_path_forward rt (drop_path blk) (map (map (map2 (*) g2)) m)))"
  unfolding Block_forward_def
  by (simp add: assms bind_result_eq_Inr residual_add_eq_Inr mul_channels_eq_Inr)

lemma gamma_not_parameter:
  assumes "gamma_1 blk = None" "gamma_2 blk = None"
  shows "CHR ''g'' # cs \<notin> set (Block_parameters blk)"
  using assms by (simp add: Block_parameters_def not_in_prefixed)

text \<open>
  Claim C6, as the code has it. \<open>Block.__init__\<close> tests \<open>if init_values:\<close>, so the gates exist
  when \<open>init_values\<close> is a number other than zero: then \<open>gamma_1\<close> and \<open>gamma_2\<close> are
  parameters, vectors of length \<open>dim\<close> filled with that number, and \<open>forward\<close> multiplies the
  output of each branch by its gamma, channel by channel, before the drop-path-gated residual
  sum. When \<open>init_values\<close> is \<open>None\<close> or zero, both gammas are absent and the branches are added
  unscaled.
\<close>

theorem Block_gamma_gates:
  assumes "Block_init rt dim' nh mr qb dr ad dp iv e ws ahd = Inr blk"
  shows "(\<forall>v. iv = Some v \<and> v \<noteq> 0 \<longrightarrow>
            gamma_1 blk = Some (replicate dim' v) \<and> gamma_2 blk = Some (replicate dim' v)
          \<and> ''gamma_1'' \<in> set (Block_parameters blk) \<and> ''gamma_2'' \<in> set (Block_parameters blk)
          \<and> (\<forall>rt' x s y. Block_forward rt' blk x s = Inr y \<longleftrightarrow>
               (\<exists>h a x1 h2 m.
                  LayerNorm_forward (norm1 blk) x = Inr h
                \<and> Attention_forward rt' (attn blk) h s = Inr a
                \<and> (\<forall>t \<in> set a. \<forall>r \<in> set t. length r = dim')
                \<and> same_shape3 x (drop_path_forward rt' (drop_path blk)
                      (map (map (map2 (*) (replicate dim' v))) a))
                \<and> x1 = add3 x (drop_path_forward rt' (drop_path blk)
                      (map (map (map2 (*) (replicate dim' v))) a))
                \<and> LayerNorm_forward (norm2 blk) x1 = Inr h2
                \<and> Mlp_forward rt' (mlp blk) h2 = Inr m
                \<and> (\<forall>t \<in> set m. \<forall>r \<in> set t. length r = dim')
                \<and> same_shape3 x1 (drop_path_forward rt' (drop_path blk)
                      (map (map (map2 (*) (replicate dim' v))) m))
                \<and> y = add3 x1 (drop_path_forward rt' (drop_path blk)
                      (map (map (map2 (*) (replicate dim' v))) m)))))
       \<and> (iv = None \<or> iv = Some 0 \<longrightarrow>
            gamma_1 blk = None \<and> gamma_2 blk = None
          \<and> ''gamma_1'' \<notin> set (Block_parameters blk) \<and> ''gamma_2'' \<notin> set (Block_parameters blk)
          \<and> (\<forall>rt' x s y. Block_forward rt' blk x s = Inr y \<longleftrightarrow>
               (\<exists>h a x1 h2 m.
                  LayerNorm_forward (norm1 blk) x = Inr h
                \<and> Attention_forward rt' (attn blk) h s = Inr a
                \<and> same_shape3 x (drop_path_forward rt' (drop_path blk) a)
                \<and> x1 = add3 x (drop_path_forward rt' (drop_path blk) a)
                \<and> LayerNorm_forward (norm2 blk) x1 = Inr h2
                \<and> Mlp_forward rt' (mlp blk) h2 = Inr m
                \<and> same_shape3 x1 (drop_path_forward rt' (drop_path blk) m)
                \<and> y = add3 x1 (drop_path_forward rt' (drop_path blk) m))))"
proof (intro conjI allI impI)
  fix v assume v: "iv = Some v \<and> v \<noteq> 0"
  show g1: "gamma_1 blk = Some (replicate dim' v)"
    using Block_init_fields(1) [OF assms] v by simp
  show g2: "gamma_2 blk = Some (replicate dim' v)"
    using Block_init_fields(2) [OF assms] g1 by simp
  show "''gamma_1'' \<in> set (Block_parameters blk)" using g1 by (simp add: Block_parameters_def)
  show "''gamma_2'' \<in> set (Block_parameters blk)" using g2 by (simp add: Block_parameters_def)
next
  fix v rt' x s y assume v: "iv = Some v \<and> v \<noteq> 0"
  have g1: "gamma_1 blk = Some (replicate dim' v)"
    using Block_init_fields(1) [OF assms] v by simp
  have g2: "gamma_2 blk = Some (replicate dim' v)"
    using Block_init_fields(2) [OF assms] g1 by simp
  show "Block_forward rt' blk x s = Inr y \<longleftrightarrow>
               (\<exists>h a x1 h2 m.
                  LayerNorm_forward (norm1 blk) x = Inr h
                \<and> Attention_forward rt' (attn blk) h s = Inr a
                \<and> (\<forall>t \<in> set a. \<forall>r \<in> set t. length r = dim')
                \<and> same_shape3 x (drop_path_forward rt' (drop_path blk)
                      (map (map (map2 (*) (replicate dim' v))) a))
                \<and> x1 = add3 x (drop_path_forward rt' (drop_path blk)
                      (map (map (map2 (*) (replicate dim' v))) a))
                \<and> LayerNorm_forward (norm2 blk) x1 = Inr h2
                \<and> Mlp_forward rt' (mlp blk) h2 = Inr m
                \<and> (\<forall>t \<in> set m. \<forall>r \<in> set t. length r = dim')
                \<and> same_shape3 x1 (drop_path_forward rt' (drop_path blk)
                      (map (map (map2 (*) (replicate dim' v))) m))
                \<and> y = add3 x1 (drop_path_forward rt' (drop_path blk)
                      (map (map (map2 (*) (replicate dim' v))) m)))"
    unfolding Block_forward_gated [OF g1 g2] by simp
next
  assume n: "iv = None \<or> iv = Some 0"
  show g1: "gamma_1 blk = None"
    using Block_init_fields(1) [OF assms] n by auto
  show g2: "gamma_2 blk = None"
    using Block_init_fields(2) [OF assms] g1 by simp
  show "''gamma_1'' \<notin> set (Block_parameters blk)"
    by (rule gamma_not_parameter [OF g1 g2])
  show "''gamma_2'' \<notin> set (Block_parameters blk)"
    by (rule gamma_not_parameter [OF g1 g2])
next
  fix rt' x s y assume n: "iv = None \<or> iv = Some 0"
  have g1: "gamma_1 blk = None"
    using Block_init_fields(1) [OF assms] n by auto
  show "Block_forward rt' blk x s = Inr y \<longleftrightarrow>
               (\<exists>h a x1 h2 m.
                  LayerNorm_forward (norm1 blk) x = Inr h
                \<and> Attention_forward rt' (attn blk) h s = Inr a
                \<and> same_shape3 x (drop_path_forward rt' (drop_path blk) a)
                \<and> x1 = add3 x (drop_path_forward rt' (drop_path blk) a)
                \<and> LayerNorm_forward (norm2 blk) x1 = Inr h2
                \<and> Mlp_forward rt' (mlp blk) h2 = Inr m
                \<and> same_shape3 x1 (drop_path_forward rt' (drop_path blk) m)
                \<and> y = add3 x1 (drop_path_forward rt' (drop_path blk) m))"
    by (rule Block_forward_plain [OF g1])
qed


theorem Block_gamma_gates_witness:
  "Block_init rt_eval 2 1 4 True 0 0 0 (Some (1 / 10)) (1 / 1000000) None None
     = Inr (projr (Block_init rt_eval 2 1 4 True 0 0 0 (Some (1 / 10)) (1 / 1000000) None None))
   \<and> gamma_1 (projr (Block_init rt_eval 2 1 4 True 0 0 0 (Some (1 / 10)) (1 / 1000000) None None))
     = Some [1 / 10, 1 / 10]
   \<and> gamma_2 (projr (Block_init rt_eval 2 1 4 True 0 0 0 (Some (1 / 10)) (1 / 1000000) None None))
     = Some [1 / 10, 1 / 10]
   \<and> ''gamma_1'' \<in> set (Block_parameters
         (projr (Block_init rt_eval 2 1 4 True 0 0 0 (Some (1 / 10)) (1 / 1000000) None None)))"
proof -
  let ?r = "Block_init rt_eval 2 1 4 True 0 0 0 (Some (1 / 10)) (1 / 1000000) None None"
  have "\<exists>b. ?r = Inr b" by (rule Block_init_Inr) simp_all
  then have h: "?r = Inr (projr ?r)" by auto
  have two: "replicate 2 (1 / 10 :: real) = [1 / 10, 1 / 10]" by (simp add: numeral_2_eq_2)
  note t = Block_gamma_gates [OF h, THEN conjunct1, rule_format, of "1 / 10"]
  have c: "Some (1 / 10 :: real) = Some (1 / 10) \<and> (1 / 10 :: real) \<noteq> 0" by simp
  show ?thesis using h t [OF c] two by simp
qed

text \<open>
  Claim C6 as stated fails for \<open>init_values = 0\<close>: the argument is provided, and the block has
  no gammas.
\<close>

theorem Block_init_values_zero_counterexample:
  "\<not> isl (Block_init rt_eval 2 1 4 True 0 0 0 (Some 0) (1 / 1000000) None None)
   \<and> gamma_1 (projr (Block_init rt_eval 2 1 4 True 0 0 0 (Some 0) (1 / 1000000) None None)) = None
   \<and> gamma_2 (projr (Block_init rt_eval 2 1 4 True 0 0 0 (Some 0) (1 / 1000000) None None)) = None
   \<and> gamma_1 (projr (Block_init rt_eval 2 1 4 True 0 0 0 (Some 0) (1 / 1000000) None None))
       \<noteq> Some (replicate 2 0)"
proof -
  let ?r = "Block_init rt_eval 2 1 4 True 0 0 0 (Some 0) (1 / 1000000) None None"
  have "\<exists>b. ?r = Inr b" by (rule Block_init_Inr) simp_all
  then have h: "?r = Inr (projr ?r)" by auto
  have n: "\<not> isl ?r" using h by (metis sum.disc(2))
  show ?thesis
    using n Block_init_fields(1) [OF h] Block_init_fields(2) [OF h] by simp
qed

section \<open>Properties of the model assembly\<close>

lemma sequence_results_Inr:
  "sequence_results rs = Inr vs \<Longrightarrow>
   length vs = length rs \<and> (\<forall>i < length rs. rs ! i = Inr (vs ! i))"
proof (induction rs arbitrary: vs)
  case Nil
  then show ?case by simp
next
  case (Cons r rs)
  from Cons.prems obtain v ws where r: "r = Inr v" and ws: "sequence_results rs = Inr ws"
    and vs: "vs = v # ws"
    by (auto split: sum.splits)
  have ih: "length ws = length rs \<and> (\<forall>i < length rs. rs ! i = Inr (ws ! i))"
    using Cons.IH [OF ws] .
  show ?case
  proof (intro conjI allI impI)
    show "length vs = length (r # rs)" using ih vs by simp
    fix i assume "i < length (r # rs)"
    then show "(r # rs) ! i = Inr (vs ! i)"
      using ih r vs by (cases i) auto
  qed
qed

lemma sequence_results_all_Inr:
  "(\<forall>r \<in> set rs. \<exists>v. r = Inr v) \<Longrightarrow> \<exists>vs. sequence_results rs = Inr vs"
  by (induction rs) auto

lemma blocks_init_after_apply:
  "blocks (init_after_apply rt sc m)
     = map (\<lambda>(layer_id, layer). fix_init_weight_layer layer_id layer) (enumerate 0 (blocks m))"
  by (simp add: init_after_apply_def fix_init_weight_def Let_def split: option.splits head_module.splits)

lemma blocks_apply_init_weights:
  "blocks (apply_init_weights rt m) = map (apply_init_weights_Block rt) (blocks m)"
  by (simp add: apply_init_weights_def)

lemma Beit_init_Inr:
  "Beit_init rt args = Inr m \<longleftrightarrow>
     (\<exists>m0. Beit_modules rt args = Inr m0
        \<and> m = init_after_apply rt (arg_head_init_scale args) (apply_init_weights rt m0))"
  by (auto simp: Beit_init_def bind_result_eq_Inr)

lemma Beit_init_blocks:
  assumes "Beit_modules rt args = Inr m0"
    and "m = init_after_apply rt (arg_head_init_scale args) (apply_init_weights rt m0)"
  shows "length (blocks m) = length (blocks m0)"
    and "i < length (blocks m0) \<Longrightarrow>
         blocks m ! i = fix_init_weight_layer i (apply_init_weights_Block rt (blocks m0 ! i))"
  by (simp_all add: assms(2) blocks_init_after_apply blocks_apply_init_weights nth_enumerate_eq)

lemma Beit_modules_blocks:
  assumes "Beit_modules rt args = Inr m0"
  shows "length (blocks m0) = arg_depth args"
    and "i < arg_depth args \<Longrightarrow>
         Block_init rt (arg_embed_dim args) (arg_num_heads args) (arg_mlp_ratio args)
           (arg_qkv_bias args) (arg_drop_rate args) (arg_attn_drop_rate args)
           (linspace 0 (arg_drop_path_rate args) (arg_depth args) ! i)
           (arg_init_values args) (arg_norm_eps args)
           (if arg_use_rel_pos_bias args
            then Some (arg_img_size args div arg_patch_size args,
                       arg_img_size args div arg_patch_size args) else None) None
         = Inr (blocks m0 ! i)"
proof -
  from assms obtain pe bs where
    pe: "PatchEmbed_init rt (arg_img_size args) (arg_patch_size args) = Inr pe"
    and bs: "sequence_results
          (map (\<lambda>i. Block_init rt (arg_embed_dim args) (arg_num_heads args) (arg_mlp_ratio args)
                       (arg_qkv_bias args) (arg_drop_rate args) (arg_attn_drop_rate args)
                       (linspace 0 (arg_drop_path_rate args) (arg_depth args) ! i)
                       (arg_init_values args) (arg_norm_eps args)
                       (if arg_use_rel_pos_bias args then Some (grid_size pe) else None) None)
               [0..<arg_depth args]) = Inr bs"
    and m0: "blocks m0 = bs"
    by (auto simp: Beit_modules_def bind_result_eq_Inr Let_def)
  have g: "grid_size pe = (arg_img_size args div arg_patch_size args,
                       arg_img_size args div arg_patch_size args)"
    using pe by (auto simp: PatchEmbed_init_def split: if_splits)
  note s = sequence_results_Inr [OF bs]
  show "length (blocks m0) = arg_depth args" using s m0 by simp
  assume i: "i < arg_depth args"
  have "Block_init rt (arg_embed_dim args) (arg_num_heads args) (arg_mlp_ratio args)
           (arg_qkv_bias args) (arg_drop_rate args) (arg_attn_drop_rate args)
           (linspace 0 (arg_drop_path_rate args) (arg_depth args) ! i)
           (arg_init_values args) (arg_norm_eps args)
           (if arg_use_rel_pos_bias args then Some (grid_size pe) else None) None
         = Inr (bs ! i)"
    using s i by simp
  then show "Block_init rt (arg_embed_dim args) (arg_num_heads args) (arg_mlp_ratio args)
           (arg_qkv_bias args) (arg_drop_rate args) (arg_attn_drop_rate args)
           (linspace 0 (arg_drop_path_rate args) (arg_depth args) ! i)
           (arg_init_values args) (arg_norm_eps args)
           (if arg_use_rel_pos_bias args
            then Some (arg_img_size args div arg_patch_size args,
                       arg_img_size args div arg_patch_size args) else None) None
         = Inr (blocks m0 ! i)"
    unfolding g m0 .
qed

lemma to_float32_zero: "to_float32 0 = 0"
  by (simp add: to_float32_def round_half_even_def)







lemma linspace_one: "linspace 0 r 1 = [0]"
  by (simp add: linspace_def to_float32_zero)


lemma Block_init_drop_path:
  "Block_init rt dim' nh mr qb dr ad dp iv e ws ahd = Inr blk \<Longrightarrow>
   drop_path blk = (if dp > 0 then DropPath dp else Identity)"
  by (auto simp: Block_init_def bind_result_eq_Inr Let_def)

lemma drop_path_fix_apply:
  "drop_path (fix_init_weight_layer i (apply_init_weights_Block rt b)) = drop_path b"
  by (simp add: fix_init_weight_layer_def apply_init_weights_Block_def)

lemma Beit_modules_succeeds:
  assumes "0 < arg_patch_size args" "0 < arg_num_heads args"
    and "arg_num_heads args \<le> arg_embed_dim args"
  shows "\<exists>m0. Beit_modules rt args = Inr m0"
proof -
  obtain pe where pe: "PatchEmbed_init rt (arg_img_size args) (arg_patch_size args) = Inr pe"
    using assms(1) by (simp add: PatchEmbed_init_def)
  have d: "0 < arg_embed_dim args div arg_num_heads args"
    using assms(2,3) by (simp add: div_greater_zero_iff)
  have one: "\<exists>b. Block_init rt (arg_embed_dim args) (arg_num_heads args) (arg_mlp_ratio args)
                 (arg_qkv_bias args) (arg_drop_rate args) (arg_attn_drop_rate args) dp
                 (arg_init_values args) (arg_norm_eps args) ws None = Inr b" for dp ws
    by (rule Block_init_Inr) (use assms(2) d in simp_all)
  have "\<forall>r \<in> set (map (\<lambda>i. Block_init rt (arg_embed_dim args) (arg_num_heads args)
                       (arg_mlp_ratio args)
                       (arg_qkv_bias args) (arg_drop_rate args) (arg_attn_drop_rate args)
                       (linspace 0 (arg_drop_path_rate args) (arg_depth args) ! i)
                       (arg_init_values args) (arg_norm_eps args)
                       (if arg_use_rel_pos_bias args then Some (grid_size pe) else None) None)
               [0..<arg_depth args]). \<exists>v. r = Inr v"
    using one by auto
  then obtain bs where "sequence_results (map (\<lambda>i. Block_init rt (arg_embed_dim args)
                       (arg_num_heads args) (arg_mlp_ratio args)
                       (arg_qkv_bias args) (arg_drop_rate args) (arg_attn_drop_rate args)
                       (linspace 0 (arg_drop_path_rate args) (arg_depth args) ! i)
                       (arg_init_values args) (arg_norm_eps args)
                       (if arg_use_rel_pos_bias args then Some (grid_size pe) else None) None)
               [0..<arg_depth args]) = Inr bs"
    using sequence_results_all_Inr by blast
  then show ?thesis
    using pe by (simp add: Beit_modules_def bind_result_def Let_def)
qed

lemma Beit_init_succeeds:
  assumes "0 < arg_patch_size args" "0 < arg_num_heads args"
    and "arg_num_heads args \<le> arg_embed_dim args"
  shows "Beit_init rt args = Inr (projr (Beit_init rt args))"
    and "Beit_modules rt args = Inr (projr (Beit_modules rt args))"
proof -
  obtain m0 where m0: "Beit_modules rt args = Inr m0"
    using Beit_modules_succeeds [OF assms] by blast
  then show "Beit_modules rt args = Inr (projr (Beit_modules rt args))" by simp
  show "Beit_init rt args = Inr (projr (Beit_init rt args))"
    using m0 by (simp add: Beit_init_def bind_result_def)
qed








text \<open>
  Claim C10. For \<open>depth = 1\<close> the single block is built with rate 0 whatever
  \<open>drop_path_rate\<close> is, its drop-path module is \<open>nn.Identity\<close>, and that module returns its
  input in every mode, training included.
\<close>

theorem Beit_depth_one_drop_path:
  assumes "Beit_init rt args = Inr m" "arg_depth args = 1"
  shows "length (blocks m) = 1
       \<and> drop_path (blocks m ! 0) = Identity
       \<and> (\<forall>rt' x. drop_path_forward rt' (drop_path (blocks m ! 0)) x = x)
       \<and> (\<exists>m0. Beit_modules rt args = Inr m0
            \<and> Block_init rt (arg_embed_dim args) (arg_num_heads args) (arg_mlp_ratio args)
           (arg_qkv_bias args) (arg_drop_rate args) (arg_attn_drop_rate args)
           (0)
           (arg_init_values args) (arg_norm_eps args)
           (if arg_use_rel_pos_bias args
            then Some (arg_img_size args div arg_patch_size args,
                       arg_img_size args div arg_patch_size args) else None) None
              = Inr (blocks m0 ! 0))"
proof -
  from assms(1) obtain m0 where m0: "Beit_modules rt args = Inr m0"
    and m: "m = init_after_apply rt (arg_head_init_scale args) (apply_init_weights rt m0)"
    unfolding Beit_init_Inr by blast
  have len0: "length (blocks m0) = 1" using Beit_modules_blocks(1) [OF m0] assms(2) by simp
  have len: "length (blocks m) = 1" using Beit_init_blocks(1) [OF m0 m] len0 by simp
  have i: "0 < arg_depth args" using assms(2) by simp
  have l: "linspace 0 (arg_drop_path_rate args) (arg_depth args) ! 0 = 0"
    unfolding assms(2) by (simp only: linspace_one nth_Cons_0)
  have b0: "Block_init rt (arg_embed_dim args) (arg_num_heads args) (arg_mlp_ratio args)
           (arg_qkv_bias args) (arg_drop_rate args) (arg_attn_drop_rate args)
           (0)
           (arg_init_values args) (arg_norm_eps args)
           (if arg_use_rel_pos_bias args
            then Some (arg_img_size args div arg_patch_size args,
                       arg_img_size args div arg_patch_size args) else None) None
           = Inr (blocks m0 ! 0)"
    using Beit_modules_blocks(2) [OF m0 i] unfolding l .
  have dp: "drop_path (blocks m ! 0) = drop_path (blocks m0 ! 0)"
    using Beit_init_blocks(2) [OF m0 m, of 0] len0 by (simp add: drop_path_fix_apply)
  have idm: "drop_path (blocks m ! 0) = Identity"
    using Block_init_drop_path [OF b0] dp by simp
  have fw: "\<forall>rt' x. drop_path_forward rt' (drop_path (blocks m ! 0)) x = x"
    by (simp add: idm drop_path_forward_def)
  show ?thesis using len idm fw m0 b0 by blast
qed

theorem Beit_depth_one_drop_path_witness:
  "Beit_init rt_eval (Beit_args_example\<lparr>arg_depth := 1\<rparr>)
     = Inr (projr (Beit_init rt_eval (Beit_args_example\<lparr>arg_depth := 1\<rparr>)))
   \<and> arg_depth (Beit_args_example\<lparr>arg_depth := 1\<rparr>) = 1
   \<and> 0 < arg_drop_path_rate (Beit_args_example\<lparr>arg_depth := 1\<rparr>)
   \<and> length (blocks (projr (Beit_init rt_eval (Beit_args_example\<lparr>arg_depth := 1\<rparr>)))) = 1
   \<and> drop_path (blocks (projr (Beit_init rt_eval (Beit_args_example\<lparr>arg_depth := 1\<rparr>))) ! 0)
       = Identity"
proof -
  have h: "Beit_init rt_eval (Beit_args_example\<lparr>arg_depth := 1\<rparr>)
     = Inr (projr (Beit_init rt_eval (Beit_args_example\<lparr>arg_depth := 1\<rparr>)))"
    by (rule Beit_init_succeeds) (simp_all add: Beit_args_example_def Beit_defaults_def)
  have d: "arg_depth (Beit_args_example\<lparr>arg_depth := 1\<rparr>) = 1" by simp
  have r: "0 < arg_drop_path_rate (Beit_args_example\<lparr>arg_depth := 1\<rparr>)"
    by (simp add: Beit_args_example_def)
  show ?thesis using h d r Beit_depth_one_drop_path [OF h d] by blast
qed


text \<open>
  Claim C2. After construction, for the block at depth \<open>i + 1\<close> (counted from 1), the weight of
  the attention output projection and the weight of \<open>mlp.fc2\<close> are the values the generic pass
  \<open>self.apply(self._init_weights)\<close> left there (draws of \<open>trunc_normal_\<close>), divided by
  \<open>sqrt (2 * (i + 1))\<close>; putting the two weights of the generic pass back gives the block of
  the generic pass, so nothing else in the block was changed after it.
\<close>

theorem Beit_fix_init_weight_rescales:
  assumes "Beit_init rt args = Inr m"
  shows "\<exists>m0. Beit_modules rt args = Inr m0
       \<and> length (blocks m) = arg_depth args
       \<and> length (blocks (apply_init_weights rt m0)) = arg_depth args
       \<and> (\<forall>i < arg_depth args.
             weight (proj (attn (blocks (apply_init_weights rt m0) ! i)))
               = trunc_normal_mat rt 0.02 (weight (proj (attn (blocks m0 ! i))))
           \<and> weight (fc2 (mlp (blocks (apply_init_weights rt m0) ! i)))
               = trunc_normal_mat rt 0.02 (weight (fc2 (mlp (blocks m0 ! i))))
           \<and> weight (proj (attn (blocks m ! i)))
               = map (map (\<lambda>w. w / sqrt (2 * real (i + 1))))
                   (weight (proj (attn (blocks (apply_init_weights rt m0) ! i))))
           \<and> weight (fc2 (mlp (blocks m ! i)))
               = map (map (\<lambda>w. w / sqrt (2 * real (i + 1))))
                   (weight (fc2 (mlp (blocks (apply_init_weights rt m0) ! i))))
           \<and> (blocks m ! i)
                 \<lparr> attn := (attn (blocks m ! i))\<lparr> proj := (proj (attn (blocks m ! i)))
                     \<lparr> weight := weight (proj (attn (blocks (apply_init_weights rt m0) ! i))) \<rparr> \<rparr>,
                   mlp := (mlp (blocks m ! i))\<lparr> fc2 := (fc2 (mlp (blocks m ! i)))
                     \<lparr> weight := weight (fc2 (mlp (blocks (apply_init_weights rt m0) ! i))) \<rparr> \<rparr> \<rparr>
               = blocks (apply_init_weights rt m0) ! i)"
proof -
  from assms(1) obtain m0 where m0: "Beit_modules rt args = Inr m0"
    and m: "m = init_after_apply rt (arg_head_init_scale args) (apply_init_weights rt m0)"
    unfolding Beit_init_Inr by blast
  have len0: "length (blocks m0) = arg_depth args" by (rule Beit_modules_blocks(1) [OF m0])
  have len: "length (blocks m) = arg_depth args"
    using Beit_init_blocks(1) [OF m0 m] len0 by simp
  have len1: "length (blocks (apply_init_weights rt m0)) = arg_depth args"
    using len0 by (simp add: blocks_apply_init_weights)
  have body: "weight (proj (attn (blocks (apply_init_weights rt m0) ! i)))
               = trunc_normal_mat rt 0.02 (weight (proj (attn (blocks m0 ! i))))
           \<and> weight (fc2 (mlp (blocks (apply_init_weights rt m0) ! i)))
               = trunc_normal_mat rt 0.02 (weight (fc2 (mlp (blocks m0 ! i))))
           \<and> weight (proj (attn (blocks m ! i)))
               = map (map (\<lambda>w. w / sqrt (2 * real (i + 1))))
                   (weight (proj (attn (blocks (apply_init_weights rt m0) ! i))))
           \<and> weight (fc2 (mlp (blocks m ! i)))
               = map (map (\<lambda>w. w / sqrt (2 * real (i + 1))))
                   (weight (fc2 (mlp (blocks (apply_init_weights rt m0) ! i))))
           \<and> (blocks m ! i)
                 \<lparr> attn := (attn (blocks m ! i))\<lparr> proj := (proj (attn (blocks m ! i)))
                     \<lparr> weight := weight (proj (attn (blocks (apply_init_weights rt m0) ! i))) \<rparr> \<rparr>,
                   mlp := (mlp (blocks m ! i))\<lparr> fc2 := (fc2 (mlp (blocks m ! i)))
                     \<lparr> weight := weight (fc2 (mlp (blocks (apply_init_weights rt m0) ! i))) \<rparr> \<rparr> \<rparr>
               = blocks (apply_init_weights rt m0) ! i"
    if i: "i < arg_depth args" for i
  proof -
    have b1: "blocks (apply_init_weights rt m0) ! i = apply_init_weights_Block rt (blocks m0 ! i)"
      using i len0 by (simp add: blocks_apply_init_weights)
    have b2: "blocks m ! i = fix_init_weight_layer i (apply_init_weights_Block rt (blocks m0 ! i))"
      using Beit_init_blocks(2) [OF m0 m, of i] i len0 by simp
    show ?thesis
      unfolding b1 b2
      by (simp add: fix_init_weight_layer_def apply_init_weights_Block_def init_weights_Linear_def
          rescale_def)
  qed
  show ?thesis using m0 len len1 body by blast
qed

theorem Beit_fix_init_weight_rescales_witness:
  "Beit_init rt_eval Beit_args_example = Inr (projr (Beit_init rt_eval Beit_args_example))
   \<and> weight (proj (attn (blocks (projr (Beit_init rt_eval Beit_args_example)) ! 2)))
       = map (map (\<lambda>w. w / sqrt 6))
           (weight (proj (attn (blocks (apply_init_weights rt_eval
              (projr (Beit_modules rt_eval Beit_args_example))) ! 2))))"
proof -
  have h: "Beit_init rt_eval Beit_args_example = Inr (projr (Beit_init rt_eval Beit_args_example))"
    by (rule Beit_init_succeeds) (simp_all add: Beit_args_example_def Beit_defaults_def)
  from Beit_fix_init_weight_rescales [OF h] obtain m0 where
    m0: "Beit_modules rt_eval Beit_args_example = Inr m0"
    and b: "\<forall>i < arg_depth Beit_args_example.
             weight (proj (attn (blocks (projr (Beit_init rt_eval Beit_args_example)) ! i)))
               = map (map (\<lambda>w. w / sqrt (2 * real (i + 1))))
                   (weight (proj (attn (blocks (apply_init_weights rt_eval m0) ! i))))"
    by blast
  have p: "projr (Beit_modules rt_eval Beit_args_example) = m0" using m0 by simp
  have i: "2 < arg_depth Beit_args_example" by (simp add: Beit_args_example_def)
  have "weight (proj (attn (blocks (projr (Beit_init rt_eval Beit_args_example)) ! 2)))
               = map (map (\<lambda>w. w / sqrt (2 * real (2 + 1))))
                   (weight (proj (attn (blocks (apply_init_weights rt_eval m0) ! 2))))"
    using b i by blast
  then show ?thesis using h p by simp
qed


section \<open>Properties of the parameter names\<close>

lemma no_weight_decay_fold:
  "fold (\<lambda>n nwd. if P n then insert n nwd else nwd) names S = S \<union> {n \<in> set names. P n}"
  by (induction names arbitrary: S) auto

lemma no_weight_decay_eq:
  "no_weight_decay m = {''pos_embed'', ''cls_token''}
     \<union> {n \<in> set (Beit_named_parameters m). str_contains n ''relative_position_bias_table''}"
  unfolding no_weight_decay_def by (rule no_weight_decay_fold)

lemma str_contains_self: "str_contains (sub @ s) sub"
proof (cases "sub @ s")
  case Nil
  then show ?thesis by simp
next
  case (Cons c cs)
  have "take (length sub) (sub @ s) = sub" by simp
  then show ?thesis unfolding Cons by simp
qed

lemma str_contains_append: "str_contains s sub \<Longrightarrow> str_contains (p @ s) sub"
  by (induction p) auto

lemma str_contains_suffix: "str_contains (p @ sub) sub"
  using str_contains_append [OF str_contains_self [of sub "[]"]] by simp

lemma in_prefixed: "n \<in> set names \<Longrightarrow> p @ ''.'' @ n \<in> set (prefixed p names)"
  unfolding prefixed_def set_map by (rule imageI)

lemma block_table_parameter:
  assumes "i < length (blocks m)"
    and "relative_position_bias_table (attn (blocks m ! i)) \<noteq> None"
  shows "''blocks.'' @ string_of_nat i @ ''.attn.relative_position_bias_table''
           \<in> set (Beit_named_parameters m)"
proof -
  let ?n = "(''blocks.'' @ string_of_nat i) @ ''.'' @ (''attn'' @ ''.'' @ ''relative_position_bias_table'')"
  have a: "''relative_position_bias_table'' \<in> set (Attention_parameters (attn (blocks m ! i)))"
    using assms(2) unfolding Attention_parameters_def set_append Un_iff by simp
  have b: "''attn'' @ ''.'' @ ''relative_position_bias_table'' \<in> set (Block_parameters (blocks m ! i))"
    unfolding Block_parameters_def set_append Un_iff using in_prefixed [OF a] by blast
  have c: "?n \<in> set (prefixed (''blocks.'' @ string_of_nat i) (Block_parameters (blocks m ! i)))"
    by (rule in_prefixed [OF b])
  have d: "(i, blocks m ! i) \<in> set (enumerate 0 (blocks m))"
    using assms(1) by (simp add: in_set_enumerate_eq)
  have e: "?n \<in> set (concat (map (\<lambda>(i, b). prefixed (''blocks.'' @ string_of_nat i) (Block_parameters b))
                   (enumerate 0 (blocks m))))"
    unfolding set_concat set_map using c d by blast
  have f: "?n \<in> set (Beit_named_parameters m)"
    unfolding Beit_named_parameters_def set_append Un_iff using e by blast
  have g: "?n = ''blocks.'' @ string_of_nat i @ ''.attn.relative_position_bias_table''"
    by simp
  show ?thesis using f unfolding g .
qed


lemma pos_embed_not_prefixed_patch_embed: "''pos_embed'' \<notin> set (prefixed ''patch_embed'' names)"
  by (auto simp: prefixed_def)

lemma pos_embed_not_block_parameter:
  "''pos_embed'' \<notin> set (concat (map (\<lambda>(i, b). prefixed (''blocks.'' @ string_of_nat i)
                                            (Block_parameters b)) bs))"
proof -
  have "''pos_embed'' \<notin> set (prefixed (''blocks.'' @ string_of_nat i) names)" for i names
    using not_in_prefixed [where p = "''blocks.'' @ string_of_nat i" and c = "CHR ''p''"
        and cs = "''os_embed''" and names = names]
    by simp
  then show ?thesis by (auto simp: set_concat)
qed

lemma pos_embed_not_parameter:
  assumes "pos_embed m = None"
  shows "''pos_embed'' \<notin> set (Beit_named_parameters m)"
proof -
  have 1: "''pos_embed'' \<notin> set [''cls_token'']" by simp
  have 2: "''pos_embed'' \<notin> set (if pos_embed m \<noteq> None then [''pos_embed''] else [])"
    using assms by simp
  have 3: "''pos_embed'' \<notin> set (if rel_pos_bias m \<noteq> None
        then prefixed ''rel_pos_bias'' [''relative_position_bias_table''] else [])"
    by (simp add: not_in_prefixed)
  have 4: "''pos_embed'' \<notin> set (case norm_m m of Norm n \<Rightarrow> prefixed ''norm'' (LayerNorm_parameters n)
        | Norm_Identity \<Rightarrow> [])"
    by (cases "norm_m m") (simp_all add: not_in_prefixed)
  have 5: "''pos_embed'' \<notin> set (case fc_norm m of Some n \<Rightarrow> prefixed ''fc_norm'' (LayerNorm_parameters n)
        | None \<Rightarrow> [])"
    by (cases "fc_norm m") (simp_all add: not_in_prefixed)
  have 6: "''pos_embed'' \<notin> set (case head m of Head l \<Rightarrow> prefixed ''head'' (Linear_parameters l)
        | Head_Identity \<Rightarrow> [])"
    by (cases "head m") (simp_all add: not_in_prefixed)
  show ?thesis
    unfolding Beit_named_parameters_def set_append Un_iff
    using 1 2 3 4 5 6 pos_embed_not_prefixed_patch_embed pos_embed_not_block_parameter
    by blast
qed

lemma pos_embed_init_after_apply:
  "pos_embed (init_after_apply rt sc (apply_init_weights rt m0)) = None \<longleftrightarrow> pos_embed m0 = None"
  by (simp add: init_after_apply_def apply_init_weights_def fix_init_weight_def Let_def
      split: option.splits head_module.splits)

lemma Beit_modules_pos_embed:
  "Beit_modules rt args = Inr m0 \<Longrightarrow> pos_embed m0 = None \<longleftrightarrow> \<not> arg_use_abs_pos_emb args"
  by (auto simp: Beit_modules_def bind_result_eq_Inr Let_def)

lemma Block_init_table:
  "Block_init rt dim' nh mr qb dr ad dp iv e (Some ws) ahd = Inr blk \<Longrightarrow>
   relative_position_bias_table (attn blk) \<noteq> None"
  by (auto simp: Block_init_def Attention_init_def bind_result_eq_Inr Let_def split: if_splits)

lemma table_fix_apply:
  "relative_position_bias_table (attn (fix_init_weight_layer i (apply_init_weights_Block rt b)))
     = relative_position_bias_table (attn b)"
  by (simp add: fix_init_weight_layer_def apply_init_weights_Block_def)

text \<open>
  Claim C5, as the code has it. For a model built by \<open>beit_base_patch16_224\<close> the set
  returned by \<open>no_weight_decay\<close> is \<open>{"pos_embed", "cls_token"}\<close> together with every parameter
  name that contains \<open>"relative_position_bias_table"\<close>, among them the table of each of the
  twelve blocks. The model has no \<open>pos_embed\<close> parameter, and \<open>"pos_embed"\<close> is in the set all
  the same: the set starts from the two names without a test.
\<close>

theorem beit_base_patch16_224_no_weight_decay:
  assumes "beit_base_patch16_224 rt kwargs = Inr m"
  shows "no_weight_decay m
           = {''pos_embed'', ''cls_token''}
             \<union> {n \<in> set (Beit_named_parameters m). str_contains n ''relative_position_bias_table''}
       \<and> (\<forall>n \<in> set (Beit_named_parameters m).
             str_contains n ''relative_position_bias_table'' \<longrightarrow> n \<in> no_weight_decay m)
       \<and> length (blocks m) = 12
       \<and> (\<forall>i < 12. ''blocks.'' @ string_of_nat i @ ''.attn.relative_position_bias_table''
                       \<in> set (Beit_named_parameters m) \<inter> no_weight_decay m)
       \<and> pos_embed m = None
       \<and> ''pos_embed'' \<notin> set (Beit_named_parameters m)
       \<and> ''pos_embed'' \<in> no_weight_decay m"
proof -
  let ?args = "kwargs\<lparr> arg_patch_size := 16, arg_embed_dim := 768, arg_depth := 12,
                arg_num_heads := 12, arg_mlp_ratio := 4, arg_use_abs_pos_emb := False,
                arg_use_rel_pos_bias := True, arg_init_values := Some 0.1 \<rparr>"
  have init: "Beit_init rt ?args = Inr m" using assms by (simp add: beit_base_patch16_224_def)
  then obtain m0 where m0: "Beit_modules rt ?args = Inr m0"
    and m: "m = init_after_apply rt (arg_head_init_scale ?args) (apply_init_weights rt m0)"
    unfolding Beit_init_Inr by blast
  have len0: "length (blocks m0) = 12" using Beit_modules_blocks(1) [OF m0] by simp
  have len: "length (blocks m) = 12" using Beit_init_blocks(1) [OF m0 m] len0 by simp
  have pe: "pos_embed m = None"
    using Beit_modules_pos_embed [OF m0] by (simp add: m pos_embed_init_after_apply)
  have tab: "relative_position_bias_table (attn (blocks m ! i)) \<noteq> None" if i: "i < 12" for i
  proof -
    have "i < arg_depth ?args" using i by simp
    from Beit_modules_blocks(2) [OF m0 this]
    have "relative_position_bias_table (attn (blocks m0 ! i)) \<noteq> None"
      by (simp add: Block_init_table)
    moreover have "blocks m ! i = fix_init_weight_layer i (apply_init_weights_Block rt (blocks m0 ! i))"
      using Beit_init_blocks(2) [OF m0 m, of i] i len0 by simp
    ultimately show ?thesis by (simp add: table_fix_apply)
  qed
  have names: "''blocks.'' @ string_of_nat i @ ''.attn.relative_position_bias_table''
                 \<in> set (Beit_named_parameters m) \<inter> no_weight_decay m" if i: "i < 12" for i
  proof -
    have a: "''blocks.'' @ string_of_nat i @ ''.attn.relative_position_bias_table''
               \<in> set (Beit_named_parameters m)"
      using block_table_parameter [of i m] tab [OF i] i len by simp
    have b: "str_contains (''blocks.'' @ string_of_nat i @ ''.attn.relative_position_bias_table'')
               ''relative_position_bias_table''"
      using str_contains_suffix [of "''blocks.'' @ string_of_nat i @ ''.attn.''"
          "''relative_position_bias_table''"] by simp
    show ?thesis using a b unfolding no_weight_decay_eq by blast
  qed
  show ?thesis
    using no_weight_decay_eq [of m] len names pe pos_embed_not_parameter [OF pe]
    by (intro conjI) auto
qed


lemma beit_base_patch16_224_succeeds:
  "beit_base_patch16_224 rt Beit_defaults = Inr (projr (beit_base_patch16_224 rt Beit_defaults))"
  unfolding beit_base_patch16_224_def by (rule Beit_init_succeeds) simp_all

theorem beit_base_patch16_224_no_weight_decay_witness:
  "beit_base_patch16_224 rt_eval Beit_defaults
     = Inr (projr (beit_base_patch16_224 rt_eval Beit_defaults))
   \<and> ''blocks.3.attn.relative_position_bias_table''
       \<in> no_weight_decay (projr (beit_base_patch16_224 rt_eval Beit_defaults))
   \<and> ''cls_token'' \<in> no_weight_decay (projr (beit_base_patch16_224 rt_eval Beit_defaults))
   \<and> pos_embed (projr (beit_base_patch16_224 rt_eval Beit_defaults)) = None"
proof -
  let ?m = "projr (beit_base_patch16_224 rt_eval Beit_defaults)"
  have h: "beit_base_patch16_224 rt_eval Beit_defaults = Inr ?m"
    by (rule beit_base_patch16_224_succeeds)
  note t = beit_base_patch16_224_no_weight_decay [OF h]
  have three: "string_of_nat 3 = ''3''" by (simp add: string_of_nat.simps)
  note t3 = t [THEN conjunct2, THEN conjunct2, THEN conjunct2]
  have "''blocks.'' @ string_of_nat 3 @ ''.attn.relative_position_bias_table''
          \<in> set (Beit_named_parameters ?m) \<inter> no_weight_decay ?m"
    by (rule t3 [THEN conjunct1, rule_format]) simp
  then have a: "''blocks.3.attn.relative_position_bias_table'' \<in> no_weight_decay ?m"
    by (simp add: three)
  have b: "''cls_token'' \<in> no_weight_decay ?m" using t [THEN conjunct1] by simp
  have c: "pos_embed ?m = None" by (rule t3 [THEN conjunct2, THEN conjunct1])
  show ?thesis using h a b c by simp
qed

text \<open>
  Claim C5 as stated fails: the set returned for the model of \<open>beit_base_patch16_224\<close> does
  not exclude \<open>"pos_embed"\<close>.
\<close>

theorem beit_base_patch16_224_no_weight_decay_counterexample:
  "\<not> isl (beit_base_patch16_224 rt_eval Beit_defaults)
   \<and> \<not> (''pos_embed'' \<notin> no_weight_decay (projr (beit_base_patch16_224 rt_eval Beit_defaults)))"
proof -
  have "\<not> isl (beit_base_patch16_224 rt_eval Beit_defaults)"
    using beit_base_patch16_224_succeeds [of rt_eval] by (metis sum.disc(2))
  then show ?thesis unfolding no_weight_decay_eq by simp
qed

section \<open>Properties of the classifier head\<close>

lemma reset_classifier_fields:
  "fc_norm (reset_classifier rt m n pool) = fc_norm m"
  "embed_dim (reset_classifier rt m n pool) = embed_dim m"
  "head (reset_classifier rt m n pool)
     = (if n > 0 then Head (nn_Linear rt (embed_dim m) (nat n) True) else Head_Identity)"
  "global_pool (reset_classifier rt m n pool) = (case pool of Some g \<Rightarrow> g | None \<Rightarrow> global_pool m)"
  "num_classes (reset_classifier rt m n pool) = n"
  by (cases pool; simp add: reset_classifier_def Let_def)+

lemma reset_classifier_rest:
  "(reset_classifier rt m n pool)
     \<lparr>head := head m, num_classes := num_classes m, global_pool := global_pool m\<rparr> = m"
  by (cases pool) (simp_all add: reset_classifier_def Let_def)

lemma forward_head_pre_logits_reset:
  "forward_head (reset_classifier rt m n pool) x True = forward_head m x True"
  by (simp add: forward_head_def reset_classifier_fields)

lemma nn_Linear_shape:
  "length (weight (nn_Linear rt i k b)) = k"
  "\<forall>r \<in> set (weight (nn_Linear rt i k b)). length r = i"
  "bias (nn_Linear rt i k True) = Some (map (fresh_bias rt) [0..<k])"
  by (auto simp: nn_Linear_def)

lemma F_linear2_width:
  "F_linear2 x w (Some b) = Inr y \<Longrightarrow> \<forall>r \<in> set y. length r = length w"
  by (auto simp: F_linear2_def split: if_splits)

lemma F_linear2_succeeds:
  assumes "\<forall>r \<in> set x. length r = i" "\<forall>r \<in> set w. length r = i" "length b = length w"
  shows "\<exists>y. F_linear2 x w (Some b) = Inr y \<and> length y = length x"
  using assms by (auto simp: F_linear2_def)

lemma forward_head_eq_Inr:
  "forward_head m x False = Inr y \<longleftrightarrow>
     (\<exists>p. forward_head m x True = Inr p \<and> head_forward (head m) p = Inr y)"
  by (simp add: forward_head_def bind_result_eq_Inr)


lemma Beit_init_fc_norm:
  assumes "Beit_init rt args = Inr m"
  shows "fc_norm m = None \<longleftrightarrow> arg_global_pool args \<noteq> ''avg''"
proof -
  from assms obtain m0 where m0: "Beit_modules rt args = Inr m0"
    and m: "m = init_after_apply rt (arg_head_init_scale args) (apply_init_weights rt m0)"
    unfolding Beit_init_Inr by blast
  have a: "fc_norm m0 = None \<longleftrightarrow> arg_global_pool args \<noteq> ''avg''"
    using m0 by (auto simp: Beit_modules_def bind_result_eq_Inr Let_def)
  have b: "fc_norm m = None \<longleftrightarrow> fc_norm m0 = None"
    unfolding m
    by (simp add: init_after_apply_def apply_init_weights_def fix_init_weight_def Let_def
        split: option.splits head_module.splits)
  show ?thesis using a b by simp
qed

lemma Beit_init_fc_norm_shape:
  assumes "Beit_init rt args = Inr m"
  shows "embed_dim m = arg_embed_dim args"
    and "fc_norm m = Some nl \<Longrightarrow>
           normalized_shape nl = embed_dim m \<and> length (norm_weight nl) = embed_dim m
           \<and> length (norm_bias nl) = embed_dim m"
proof -
  from assms obtain m0 where m0: "Beit_modules rt args = Inr m0"
    and m: "m = init_after_apply rt (arg_head_init_scale args) (apply_init_weights rt m0)"
    unfolding Beit_init_Inr by blast
  have a: "embed_dim m0 = arg_embed_dim args"
    "fc_norm m0 = (if arg_global_pool args = ''avg''
                   then Some (nn_LayerNorm (arg_embed_dim args) (arg_norm_eps args)) else None)"
    using m0 by (auto simp: Beit_modules_def bind_result_eq_Inr Let_def)
  have b: "embed_dim m = embed_dim m0" "fc_norm m = map_option init_weights_LayerNorm (fc_norm m0)"
    unfolding m
    by (simp_all add: init_after_apply_def apply_init_weights_def fix_init_weight_def Let_def
        split: option.splits head_module.splits)
  show "embed_dim m = arg_embed_dim args" using a b by simp
  assume "fc_norm m = Some nl"
  then have "nl = init_weights_LayerNorm (nn_LayerNorm (arg_embed_dim args) (arg_norm_eps args))"
    using a b by (auto split: if_splits)
  then show "normalized_shape nl = embed_dim m \<and> length (norm_weight nl) = embed_dim m
           \<and> length (norm_bias nl) = embed_dim m"
    using a b
    by (simp add: init_weights_LayerNorm_def nn_LayerNorm_def constant_vec_def ones_def zeros_def)
qed

lemma shape3_rows:
  assumes "shape3 x = Some (B, N, C)"
  shows "length x = B" and "0 < N"
    and "\<And>m. m \<in> set x \<Longrightarrow> length m = N"
    and "\<And>m r. m \<in> set x \<Longrightarrow> r \<in> set m \<Longrightarrow> length r = C"
proof -
  have c: "x \<noteq> [] \<and> hd x \<noteq> [] \<and> (\<forall>m \<in> set x. length m = length (hd x))
         \<and> (\<forall>m \<in> set x. \<forall>r \<in> set m. length r = length (hd (hd x)))"
    using assms unfolding shape3_def by (metis option.distinct(1))
  then have "Some (length x, length (hd x), length (hd (hd x))) = Some (B, N, C)"
    using assms unfolding shape3_def by (metis option.distinct(1))
  then have e: "length x = B" "length (hd x) = N" "length (hd (hd x)) = C" by simp_all
  show "length x = B" by (rule e(1))
  show "0 < N" using c e(2) by auto
  show "\<And>m. m \<in> set x \<Longrightarrow> length m = N" using c e(2) by simp
  show "\<And>m r. m \<in> set x \<Longrightarrow> r \<in> set m \<Longrightarrow> length r = C" using c e(3) by simp
qed

lemma select_token_0_succeeds:
  assumes "shape3 x = Some (B, N, C)"
  shows "select_token_0 x = Inr (map hd x)" and "length (map hd x) = B"
    and "\<forall>r \<in> set (map hd x). length r = C"
proof -
  note s = shape3_rows [OF assms]
  have ne: "m \<noteq> []" if "m \<in> set x" for m using s(2) s(3) [OF that] by auto
  show "select_token_0 x = Inr (map hd x)" using ne by (auto simp: select_token_0_def)
  show "length (map hd x) = B" using s(1) by simp
  show "\<forall>r \<in> set (map hd x). length r = C"
  proof
    fix r assume "r \<in> set (map hd x)"
    then obtain m where m: "m \<in> set x" "r = hd m" by auto
    then have "hd m \<in> set m" using ne by simp
    then show "length r = C" using s(4) [OF m(1)] m(2) by simp
  qed
qed

lemma length_layer_norm_row:
  "length (layer_norm_row nl r) = min (length r) (min (length (norm_weight nl)) (length (norm_bias nl)))"
  by (simp add: layer_norm_row_def Let_def)

lemma mean_pool_succeeds:
  assumes "shape3 x = Some (B, N, C)" "2 \<le> N"
    and "normalized_shape nl = C" "length (norm_weight nl) = C" "length (norm_bias nl) = C"
  shows "\<exists>p. bind_result (mean_patch_tokens x) (LayerNorm_forward2 nl) = Inr p
             \<and> length p = B \<and> (\<forall>r \<in> set p. length r = C)"
proof -
  note s = shape3_rows [OF assms(1)]
  have tl: "tl m \<noteq> [] \<and> hd (tl m) \<in> set m" if "m \<in> set x" for m
  proof -
    have "2 \<le> length m" using s(3) [OF that] assms(2) by simp
    then obtain a b ms where "m = a # b # ms" by (cases m; cases "tl m") auto
    then show ?thesis by simp
  qed
  let ?p = "map (\<lambda>m. mean_rows (tl m)) x"
  have mp: "mean_patch_tokens x = Inr ?p" using tl by (auto simp: mean_patch_tokens_def)
  have rows: "length r = C" if "r \<in> set ?p" for r
  proof -
    from that obtain m where m: "m \<in> set x" "r = mean_rows (tl m)" by auto
    have "length (hd (tl m)) = C" using tl [OF m(1)] s(4) [OF m(1)] by blast
    then show ?thesis by (simp add: m(2) mean_rows_def)
  qed
  have ln: "LayerNorm_forward2 nl ?p = Inr (map (layer_norm_row nl) ?p)"
    unfolding LayerNorm_forward2_def using rows assms(3) by (auto simp del: set_map)
  have "\<forall>r \<in> set (map (layer_norm_row nl) ?p). length r = C"
  proof
    fix r assume "r \<in> set (map (layer_norm_row nl) ?p)"
    then obtain q where q: "q \<in> set ?p" "r = layer_norm_row nl q" by auto
    show "length r = C"
      unfolding q(2) length_layer_norm_row using rows [OF q(1)] assms(4,5) by simp
  qed
  moreover have "length (map (layer_norm_row nl) ?p) = B" using s(1) by simp
  ultimately show ?thesis
    unfolding mp bind_result_Inr ln by blast
qed

text \<open>The pooling of \<open>forward_head\<close>, before the head.\<close>

lemma pooled_succeeds:
  assumes "Beit_init rt args = Inr m" "shape3 x = Some (B, N, embed_dim m)"
    and "fc_norm m = None \<or> 2 \<le> N"
  shows "\<exists>p. (case fc_norm m of
               Some nl \<Rightarrow> bind_result (mean_patch_tokens x) (LayerNorm_forward2 nl)
             | None \<Rightarrow> select_token_0 x) = Inr p
           \<and> length p = B \<and> (\<forall>r \<in> set p. length r = embed_dim m)"
proof (cases "fc_norm m")
  case None
  then show ?thesis using select_token_0_succeeds [OF assms(2)] by simp
next
  case (Some nl)
  then have "2 \<le> N" using assms(3) by simp
  then show ?thesis
    using mean_pool_succeeds [OF assms(2) _ Beit_init_fc_norm_shape(2) [OF assms(1) Some, THEN conjunct1]
            Beit_init_fc_norm_shape(2) [OF assms(1) Some, THEN conjunct2, THEN conjunct1]
            Beit_init_fc_norm_shape(2) [OF assms(1) Some, THEN conjunct2, THEN conjunct2]]
    by (simp add: Some)
qed

lemma forward_head_reset_zero:
  "forward_head (reset_classifier rt m 0 pool) x False
     = (case fc_norm m of
          Some nl \<Rightarrow> bind_result (mean_patch_tokens x) (LayerNorm_forward2 nl)
        | None \<Rightarrow> select_token_0 x)"
proof -
  let ?pool = "case fc_norm m of
          Some nl \<Rightarrow> bind_result (mean_patch_tokens x) (LayerNorm_forward2 nl)
        | None \<Rightarrow> select_token_0 x"
  have "forward_head (reset_classifier rt m 0 pool) x False = bind_result ?pool Inr"
    by (simp add: forward_head_def reset_classifier_fields head_forward_def)
  also have "\<dots> = ?pool" by (cases ?pool) (simp_all add: bind_result_def)
  finally show ?thesis .
qed

lemma forward_head_reset_pos:
  "0 < n \<Longrightarrow>
   forward_head (reset_classifier rt m n pool) x False
     = bind_result
         (case fc_norm m of
            Some nl \<Rightarrow> bind_result (mean_patch_tokens x) (LayerNorm_forward2 nl)
          | None \<Rightarrow> select_token_0 x)
         (\<lambda>p. F_linear2 p (weight (nn_Linear rt (embed_dim m) (nat n) True))
                (bias (nn_Linear rt (embed_dim m) (nat n) True)))"
  by (simp add: forward_head_def reset_classifier_fields head_forward_def)

lemma forward_features_reset:
  "forward_features rt' (reset_classifier rt m n pool) img = forward_features rt' m img"
  by (cases pool) (simp_all add: forward_features_def reset_classifier_def Let_def cong: if_cong)

lemma head_succeeds:
  assumes "length p = B" "\<forall>r \<in> set p. length r = d"
  shows "\<exists>y. F_linear2 p (weight (nn_Linear rt d k True)) (bias (nn_Linear rt d k True)) = Inr y
             \<and> length y = B \<and> (\<forall>r \<in> set y. length r = k)"
proof -
  obtain y where y: "F_linear2 p (weight (nn_Linear rt d k True))
                       (Some (map (fresh_bias rt) [0..<k])) = Inr y" "length y = length p"
    using F_linear2_succeeds [where x = p and i = d and w = "weight (nn_Linear rt d k True)"
            and b = "map (fresh_bias rt) [0..<k]"] assms(2)
    by (auto simp: nn_Linear_shape)
  have "\<forall>r \<in> set y. length r = k"
    using F_linear2_width [OF y(1)] by (simp add: nn_Linear_shape)
  then show ?thesis using y assms(1) by (simp add: nn_Linear_shape)
qed

text \<open>
  Claim C8. For a constructed model, \<open>reset_classifier\<close> changes the head, \<open>num_classes\<close> and
  \<open>global_pool\<close> and nothing else. With \<open>num_classes = 0\<close> the head is the identity:
  \<open>forward_head\<close> returns the pooled features themselves (the class token, or the normalised
  mean of the patch tokens when the model has an \<open>fc_norm\<close>), and it returns them, one row of
  width \<open>embed_dim\<close> per sample, for every input of shape \<open>(B, N, embed_dim)\<close> (with a patch
  token to average where the mean is taken). With \<open>num_classes = K > 0\<close> the head is a fresh
  linear layer with \<open>K\<close> rows of width \<open>embed_dim\<close>; \<open>forward_head\<close> is that layer applied to
  the pooled features, it returns one row of width \<open>K\<close> per sample for every such input, and
  every result of \<open>forward_head\<close> and of \<open>forward\<close> has rows of width \<open>K\<close>; \<open>forward\<close> is
  \<open>forward_head\<close> after the features of the model as it was before the reset.
\<close>

theorem reset_classifier_head:
  assumes "Beit_init rt0 args = Inr m"
  shows
  "(reset_classifier rt m n pool)
      \<lparr>head := head m, num_classes := num_classes m, global_pool := global_pool m\<rparr> = m
   \<and> (\<forall>rt' img. forward rt' (reset_classifier rt m n pool) img
         = bind_result (forward_features rt' m img)
             (\<lambda>x. forward_head (reset_classifier rt m n pool) x False))
   \<and> (n = 0 \<longrightarrow>
         head (reset_classifier rt m n pool) = Head_Identity
       \<and> (\<forall>x. forward_head (reset_classifier rt m n pool) x False
                = (case fc_norm m of
                     Some nl \<Rightarrow> bind_result (mean_patch_tokens x) (LayerNorm_forward2 nl)
                   | None \<Rightarrow> select_token_0 x))
       \<and> (\<forall>x B N. shape3 x = Some (B, N, embed_dim m) \<and> (fc_norm m = None \<or> 2 \<le> N)
              \<longrightarrow> (\<exists>y. forward_head (reset_classifier rt m n pool) x False = Inr y
                       \<and> length y = B \<and> (\<forall>r \<in> set y. length r = embed_dim m))))
   \<and> (0 < n \<longrightarrow>
         head (reset_classifier rt m n pool) = Head (nn_Linear rt (embed_dim m) (nat n) True)
       \<and> length (weight (nn_Linear rt (embed_dim m) (nat n) True)) = nat n
       \<and> (\<forall>r \<in> set (weight (nn_Linear rt (embed_dim m) (nat n) True)). length r = embed_dim m)
       \<and> (\<forall>x. forward_head (reset_classifier rt m n pool) x False
                = bind_result
                    (case fc_norm m of
                       Some nl \<Rightarrow> bind_result (mean_patch_tokens x) (LayerNorm_forward2 nl)
                     | None \<Rightarrow> select_token_0 x)
                    (\<lambda>p. F_linear2 p (weight (nn_Linear rt (embed_dim m) (nat n) True))
                           (bias (nn_Linear rt (embed_dim m) (nat n) True))))
       \<and> (\<forall>x B N. shape3 x = Some (B, N, embed_dim m) \<and> (fc_norm m = None \<or> 2 \<le> N)
              \<longrightarrow> (\<exists>y. forward_head (reset_classifier rt m n pool) x False = Inr y
                       \<and> length y = B \<and> (\<forall>r \<in> set y. length r = nat n)))
       \<and> (\<forall>x y. forward_head (reset_classifier rt m n pool) x False = Inr y
              \<longrightarrow> (\<forall>r \<in> set y. length r = nat n))
       \<and> (\<forall>rt' img y. forward rt' (reset_classifier rt m n pool) img = Inr y
              \<longrightarrow> (\<forall>r \<in> set y. length r = nat n)))"
proof (intro conjI impI allI ballI)
  show "(reset_classifier rt m n pool)
      \<lparr>head := head m, num_classes := num_classes m, global_pool := global_pool m\<rparr> = m"
    by (rule reset_classifier_rest)
next
  fix rt' img
  show "forward rt' (reset_classifier rt m n pool) img
         = bind_result (forward_features rt' m img)
             (\<lambda>x. forward_head (reset_classifier rt m n pool) x False)"
    by (simp add: forward_def forward_features_reset)
next
  assume "n = 0"
  then show "head (reset_classifier rt m n pool) = Head_Identity"
    by (simp add: reset_classifier_fields)
next
  fix x assume "n = 0"
  then show "forward_head (reset_classifier rt m n pool) x False
                = (case fc_norm m of
                     Some nl \<Rightarrow> bind_result (mean_patch_tokens x) (LayerNorm_forward2 nl)
                   | None \<Rightarrow> select_token_0 x)"
    by (simp only: forward_head_reset_zero)
next
  fix x B N
  assume n: "n = 0"
    and x: "shape3 x = Some (B, N, embed_dim m) \<and> (fc_norm m = None \<or> 2 \<le> N)"
  show "\<exists>y. forward_head (reset_classifier rt m n pool) x False = Inr y
                       \<and> length y = B \<and> (\<forall>r \<in> set y. length r = embed_dim m)"
    unfolding n forward_head_reset_zero
    using pooled_succeeds [OF assms conjunct1 [OF x] conjunct2 [OF x]] .
next
  assume "0 < n"
  then show "head (reset_classifier rt m n pool) = Head (nn_Linear rt (embed_dim m) (nat n) True)"
    by (simp add: reset_classifier_fields)
next
  show "length (weight (nn_Linear rt (embed_dim m) (nat n) True)) = nat n"
    by (rule nn_Linear_shape)
next
  fix r assume "r \<in> set (weight (nn_Linear rt (embed_dim m) (nat n) True))"
  then show "length r = embed_dim m" using nn_Linear_shape(2) by blast
next
  fix x assume "0 < n"
  then show "forward_head (reset_classifier rt m n pool) x False
                = bind_result
                    (case fc_norm m of
                       Some nl \<Rightarrow> bind_result (mean_patch_tokens x) (LayerNorm_forward2 nl)
                     | None \<Rightarrow> select_token_0 x)
                    (\<lambda>p. F_linear2 p (weight (nn_Linear rt (embed_dim m) (nat n) True))
                           (bias (nn_Linear rt (embed_dim m) (nat n) True)))"
    by (rule forward_head_reset_pos)
next
  fix x B N
  assume n: "0 < n"
    and x: "shape3 x = Some (B, N, embed_dim m) \<and> (fc_norm m = None \<or> 2 \<le> N)"
  obtain p where p: "(case fc_norm m of
               Some nl \<Rightarrow> bind_result (mean_patch_tokens x) (LayerNorm_forward2 nl)
             | None \<Rightarrow> select_token_0 x) = Inr p"
    "length p = B" "\<forall>r \<in> set p. length r = embed_dim m"
    using pooled_succeeds [OF assms conjunct1 [OF x] conjunct2 [OF x]] by blast
  show "\<exists>y. forward_head (reset_classifier rt m n pool) x False = Inr y
                       \<and> length y = B \<and> (\<forall>r \<in> set y. length r = nat n)"
    unfolding forward_head_reset_pos [OF n] p(1) bind_result_Inr
    using p(2,3) by (rule head_succeeds)
next
  fix x y r
  assume n: "0 < n" and f: "forward_head (reset_classifier rt m n pool) x False = Inr y"
    and r: "r \<in> set y"
  from f obtain p where
    "F_linear2 p (weight (nn_Linear rt (embed_dim m) (nat n) True))
       (Some (map (fresh_bias rt) [0..<nat n])) = Inr y"
    unfolding forward_head_reset_pos [OF n] by (auto simp: bind_result_eq_Inr nn_Linear_shape)
  from F_linear2_width [OF this] r show "length r = nat n"
    by (simp add: nn_Linear_shape)
next
  fix rt' img y r
  assume n: "0 < n" and f: "forward rt' (reset_classifier rt m n pool) img = Inr y"
    and r: "r \<in> set y"
  from f obtain x where "forward_head (reset_classifier rt m n pool) x False = Inr y"
    by (auto simp: forward_def bind_result_eq_Inr)
  then obtain p where
    "F_linear2 p (weight (nn_Linear rt (embed_dim m) (nat n) True))
       (Some (map (fresh_bias rt) [0..<nat n])) = Inr y"
    unfolding forward_head_reset_pos [OF n] by (auto simp: bind_result_eq_Inr nn_Linear_shape)
  from F_linear2_width [OF this] r show "length r = nat n"
    by (simp add: nn_Linear_shape)
qed

theorem reset_classifier_head_witness:
  "Beit_init rt_eval (Beit_args_example\<lparr>arg_global_pool := ''token''\<rparr>)
     = Inr (projr (Beit_init rt_eval (Beit_args_example\<lparr>arg_global_pool := ''token''\<rparr>)))
   \<and> head (reset_classifier rt_eval (projr (Beit_init rt_eval (Beit_args_example\<lparr>arg_global_pool := ''token''\<rparr>))) 0 None) = Head_Identity
   \<and> forward_head (reset_classifier rt_eval (projr (Beit_init rt_eval (Beit_args_example\<lparr>arg_global_pool := ''token''\<rparr>))) 0 None)
       [[[1, 2], [3, 4], [5, 6]]] False = Inr [[1, 2]]
   \<and> (0::int) < 2
   \<and> shape3 [[[1, 2], [3, 4], [5, 6::real]]] = Some (1, 3, embed_dim (projr (Beit_init rt_eval (Beit_args_example\<lparr>arg_global_pool := ''token''\<rparr>))))
   \<and> (fc_norm (projr (Beit_init rt_eval (Beit_args_example\<lparr>arg_global_pool := ''token''\<rparr>))) = None \<or> (2::nat) \<le> 3)
   \<and> forward_head (reset_classifier rt_eval (projr (Beit_init rt_eval (Beit_args_example\<lparr>arg_global_pool := ''token''\<rparr>))) 2 None)
       [[[1, 2], [3, 4], [5, 6]]] False = Inr [[5 / 8, 11 / 8]]
   \<and> (\<exists>y. forward_head (reset_classifier rt_eval (projr (Beit_init rt_eval (Beit_args_example\<lparr>arg_global_pool := ''token''\<rparr>))) 2 None)
              [[[1, 2], [3, 4], [5, 6]]] False = Inr y
          \<and> length y = 1 \<and> (\<forall>r \<in> set y. length r = nat 2))
   \<and> Beit_init rt_eval Beit_args_example = Inr (projr (Beit_init rt_eval Beit_args_example))
   \<and> fc_norm (projr (Beit_init rt_eval Beit_args_example)) \<noteq> None
   \<and> shape3 [[[1, 2], [3, 4], [5, 6::real]]] = Some (1, 3, embed_dim (projr (Beit_init rt_eval Beit_args_example)))
   \<and> (fc_norm (projr (Beit_init rt_eval Beit_args_example)) = None \<or> (2::nat) \<le> 3)
   \<and> (\<exists>y. forward_head (reset_classifier rt_eval (projr (Beit_init rt_eval Beit_args_example)) 0 None)
              [[[1, 2], [3, 4], [5, 6]]] False = Inr y
          \<and> length y = 1 \<and> (\<forall>r \<in> set y. length r = embed_dim (projr (Beit_init rt_eval Beit_args_example))))
   \<and> (\<exists>y. forward_head (reset_classifier rt_eval (projr (Beit_init rt_eval Beit_args_example)) 2 None)
              [[[1, 2], [3, 4], [5, 6]]] False = Inr y
          \<and> length y = 1 \<and> (\<forall>r \<in> set y. length r = nat 2))
   \<and> Beit_init rt_eval
         (Beit_args_example\<lparr>arg_img_size := 1, arg_embed_dim := 1, arg_depth := 1,
          arg_global_pool := ''token''\<rparr>)
       = Inr (projr (Beit_init rt_eval
         (Beit_args_example\<lparr>arg_img_size := 1, arg_embed_dim := 1, arg_depth := 1,
          arg_global_pool := ''token''\<rparr>)))
   \<and> forward_features rt_eval
         (projr (Beit_init rt_eval
         (Beit_args_example\<lparr>arg_img_size := 1, arg_embed_dim := 1, arg_depth := 1,
          arg_global_pool := ''token''\<rparr>)))
         [[[[7]]]] = Inr [[[0], [0]]]
   \<and> forward rt_eval (reset_classifier rt_eval
         (projr (Beit_init rt_eval
         (Beit_args_example\<lparr>arg_img_size := 1, arg_embed_dim := 1, arg_depth := 1,
          arg_global_pool := ''token''\<rparr>))) 0 None)
         [[[[7]]]] = Inr [[0]]
   \<and> forward rt_eval (reset_classifier rt_eval
         (projr (Beit_init rt_eval
         (Beit_args_example\<lparr>arg_img_size := 1, arg_embed_dim := 1, arg_depth := 1,
          arg_global_pool := ''token''\<rparr>))) 2 None)
         [[[[7]]]] = Inr [[1 / 8, 1 / 8]]
   \<and> list_all (\<lambda>r. length r = nat 2) [[1 / 8, 1 / 8 :: real]]"
proof -
  let ?m1 = "projr (Beit_init rt_eval
         (Beit_args_example\<lparr>arg_img_size := 1, arg_embed_dim := 1, arg_depth := 1,
          arg_global_pool := ''token''\<rparr>))"
  let ?m = "projr (Beit_init rt_eval (Beit_args_example\<lparr>arg_global_pool := ''token''\<rparr>))"
  let ?ma = "projr (Beit_init rt_eval Beit_args_example)"
  let ?x = "[[[1, 2], [3, 4], [5, 6::real]]]"
  have h: "Beit_init rt_eval (Beit_args_example\<lparr>arg_global_pool := ''token''\<rparr>) = Inr ?m"
    by (rule Beit_init_succeeds) (simp_all add: Beit_args_example_def Beit_defaults_def)
  have ha: "Beit_init rt_eval Beit_args_example = Inr ?ma"
    by (rule Beit_init_succeeds) (simp_all add: Beit_args_example_def Beit_defaults_def)
  have f: "fc_norm ?m = None" using Beit_init_fc_norm [OF h] by simp
  have fa: "fc_norm ?ma \<noteq> None"
    using Beit_init_fc_norm [OF ha] by (simp add: Beit_args_example_def Beit_defaults_def)
  have e: "embed_dim ?m = 2"
    using Beit_init_fc_norm_shape(1) [OF h] by (simp add: Beit_args_example_def)
  have ea: "embed_dim ?ma = 2"
    using Beit_init_fc_norm_shape(1) [OF ha] by (simp add: Beit_args_example_def)
  have sh: "shape3 ?x = Some (1, 3, 2)" by (simp add: shape3_def)
  have s: "shape3 ?x = Some (1, 3, embed_dim ?m)" unfolding e by (rule sh)
  have sa: "shape3 ?x = Some (1, 3, embed_dim ?ma)" unfolding ea by (rule sh)
  have c: "fc_norm ?m = None \<or> (2::nat) \<le> 3" "fc_norm ?ma = None \<or> (2::nat) \<le> 3" by simp_all
  have z: "(0::int) < 2" by simp
  have tok: "select_token_0 ?x = Inr [[1, 2]]" by (simp add: select_token_0_def)
  have lin: "F_linear2 [[1, 2]] (weight (nn_Linear rt_eval 2 (nat 2) True))
               (bias (nn_Linear rt_eval 2 (nat 2) True)) = Inr [[5 / 8, 11 / 8]]"
    by code_simp
  note t0 = reset_classifier_head [OF h, where rt = rt_eval and n = 0 and pool = None,
              THEN conjunct2, THEN conjunct2, THEN conjunct1, THEN mp, OF refl]
  note t2 = reset_classifier_head [OF h, where rt = rt_eval and n = 2 and pool = None,
              THEN conjunct2, THEN conjunct2, THEN conjunct2, THEN mp, OF z]
  note a0 = reset_classifier_head [OF ha, where rt = rt_eval and n = 0 and pool = None,
              THEN conjunct2, THEN conjunct2, THEN conjunct1, THEN mp, OF refl]
  note a2 = reset_classifier_head [OF ha, where rt = rt_eval and n = 2 and pool = None,
              THEN conjunct2, THEN conjunct2, THEN conjunct2, THEN mp, OF z]
  have r1: "head (reset_classifier rt_eval ?m 0 None) = Head_Identity"
    by (rule t0 [THEN conjunct1])
  have r2: "forward_head (reset_classifier rt_eval ?m 0 None) ?x False = Inr [[1, 2]]"
    using t0 [THEN conjunct2, THEN conjunct1, THEN spec, of ?x] by (simp add: f tok)
  have r3: "forward_head (reset_classifier rt_eval ?m 2 None) ?x False = Inr [[5 / 8, 11 / 8]]"
    using t2 [THEN conjunct2, THEN conjunct2, THEN conjunct2, THEN conjunct1, THEN spec, of ?x]
    by (simp only: f e tok lin option.case bind_result_Inr)
  have r4: "\<exists>y. forward_head (reset_classifier rt_eval ?m 2 None) ?x False = Inr y
          \<and> length y = 1 \<and> (\<forall>r \<in> set y. length r = nat 2)"
    using t2 [THEN conjunct2, THEN conjunct2, THEN conjunct2, THEN conjunct2, THEN conjunct1,
              rule_format, OF conjI, OF s c(1)] .
  have r5: "\<exists>y. forward_head (reset_classifier rt_eval ?ma 0 None) ?x False = Inr y
          \<and> length y = 1 \<and> (\<forall>r \<in> set y. length r = embed_dim ?ma)"
    using a0 [THEN conjunct2, THEN conjunct2, rule_format, OF conjI, OF sa c(2)] .
  have r6: "\<exists>y. forward_head (reset_classifier rt_eval ?ma 2 None) ?x False = Inr y
          \<and> length y = 1 \<and> (\<forall>r \<in> set y. length r = nat 2)"
    using a2 [THEN conjunct2, THEN conjunct2, THEN conjunct2, THEN conjunct2, THEN conjunct1,
              rule_format, OF conjI, OF sa c(2)] .
  have h1: "Beit_init rt_eval
         (Beit_args_example\<lparr>arg_img_size := 1, arg_embed_dim := 1, arg_depth := 1,
          arg_global_pool := ''token''\<rparr>)
       = Inr ?m1"
    by (rule Beit_init_succeeds) (simp_all add: Beit_args_example_def Beit_defaults_def)
  have f1: "fc_norm ?m1 = None" using Beit_init_fc_norm [OF h1] by simp
  have e1: "embed_dim ?m1 = 1"
    using Beit_init_fc_norm_shape(1) [OF h1] by (simp add: Beit_args_example_def)
  have rp: "\<And>x::real. replicate 4 x = [x, x, x, x]" by (simp add: eval_nat_numeral)
  have ff: "forward_features rt_eval ?m1 [[[[7]]]] = Inr [[[0], [0]]]"
    by (simp add: forward_features_def Beit_init_def Beit_modules_def init_after_apply_def
          apply_init_weights_def fix_init_weight_def PatchEmbed_init_def Beit_args_example_def
          Beit_defaults_def rt_eval_def linspace_def bind_result_def Let_def nn_LayerNorm_def
          init_weights_LayerNorm_def LayerNorm_forward_def nn_Linear_def trunc_normal_vec_def
          trunc_normal_mat_def zeros_def zeros_mat_def same_shape2_def add2_def
          Dropout_forward3_def constant_vec_def ones_def layer_norm_row_def enumerate_eq_zip
          to_float32_zero Block_init_def Attention_init_def Mlp_init_def
          apply_init_weights_Block_def init_weights_Linear_def fix_init_weight_layer_def
          rescale_def Block_forward_def Attention_forward_def Attention_pre_softmax_def
          shape3_def F_linear_def unbind_qkv_def scale4_def matmul_transposed_def of_tensor4_def
          nd_softmax_def tabulate_def nd_get_def Dropout_forward_nd_def nd_matmul_def
          broadcast_shapes_def operand_index_def nd_transpose_1_2_def nd_reshape3_def
          Linear_forward_def residual_add_def same_shape3_def add3_def drop_path_forward_def
          Mlp_forward_def dot_def upt_conv_Cons rp)
  have tok1: "select_token_0 [[[0], [0::real]]] = Inr [[0]]" by (simp add: select_token_0_def)
  have lin1: "F_linear2 [[0]] (weight (nn_Linear rt_eval 1 (nat 2) True))
               (bias (nn_Linear rt_eval 1 (nat 2) True)) = Inr [[1 / 8, 1 / 8]]"
    by code_simp
  note u = reset_classifier_head [OF h1, where rt = rt_eval and pool = None]
  have r7: "forward rt_eval (reset_classifier rt_eval ?m1 0 None) [[[[7]]]] = Inr [[0]]"
    unfolding u [where n = 0, THEN conjunct2, THEN conjunct1, rule_format] ff bind_result_Inr
      u [where n = 0, THEN conjunct2, THEN conjunct2, THEN conjunct1, THEN mp, OF refl,
         THEN conjunct2, THEN conjunct1, rule_format]
    by (simp only: f1 option.case tok1)
  have r8: "forward rt_eval (reset_classifier rt_eval ?m1 2 None) [[[[7]]]]
              = Inr [[1 / 8, 1 / 8]]"
    unfolding u [where n = 2, THEN conjunct2, THEN conjunct1, rule_format] ff bind_result_Inr
      u [where n = 2, THEN conjunct2, THEN conjunct2, THEN conjunct2, THEN mp, OF z,
         THEN conjunct2, THEN conjunct2, THEN conjunct2, THEN conjunct1, rule_format]
    by (simp only: f1 e1 option.case tok1 bind_result_Inr lin1)
  have r9: "list_all (\<lambda>r. length r = nat 2) [[1 / 8, 1 / 8 :: real]]"
    unfolding list_all_iff
    using u [where n = 2, THEN conjunct2, THEN conjunct2, THEN conjunct2, THEN mp, OF z,
             THEN conjunct2, THEN conjunct2, THEN conjunct2, THEN conjunct2, THEN conjunct2,
             THEN conjunct2, rule_format, OF r8]
    by blast
  show ?thesis
    by (intro conjI h r1 r2 z s c r3 r4 ha fa sa r5 r6 h1 ff r7 r8 r9)
qed

text \<open>
  Claim C9 says that \<open>reset_classifier\<close> with a new \<open>global_pool\<close> changes the pooling of
  \<open>forward_head\<close>. The code stores the value and \<open>forward_head\<close> never reads it: the pooling
  is decided by \<open>fc_norm\<close>, which \<open>reset_classifier\<close> leaves as built. A model built with
  \<open>global_pool = "token"\<close> and reset to \<open>"avg"\<close> still returns the class token \<open>[1, 2]\<close> of the
  input below, not the mean \<open>[4, 5]\<close> of its patch tokens.
\<close>

theorem reset_classifier_global_pool_ignored:
  "\<not> isl (Beit_init rt_eval (Beit_args_example\<lparr>arg_global_pool := ''token''\<rparr>))
   \<and> global_pool (reset_classifier rt_eval
         (projr (Beit_init rt_eval (Beit_args_example\<lparr>arg_global_pool := ''token''\<rparr>)))
         3 (Some ''avg'')) = ''avg''
   \<and> forward_head (reset_classifier rt_eval
         (projr (Beit_init rt_eval (Beit_args_example\<lparr>arg_global_pool := ''token''\<rparr>)))
         3 (Some ''avg''))
       [[[1, 2], [3, 4], [5, 6]]] True = Inr [[1, 2]]
   \<and> mean_patch_tokens [[[1, 2], [3, 4], [5, 6]]] = Inr [[4, 5]]"
proof -
  let ?args = "Beit_args_example\<lparr>arg_global_pool := ''token''\<rparr>"
  let ?m = "projr (Beit_init rt_eval ?args)"
  have h: "Beit_init rt_eval ?args = Inr ?m"
    by (rule Beit_init_succeeds) (simp_all add: Beit_args_example_def Beit_defaults_def)
  have n: "\<not> isl (Beit_init rt_eval ?args)" using h by (metis sum.disc(2))
  have f: "fc_norm ?m = None" using Beit_init_fc_norm [OF h] by simp
  have g: "global_pool (reset_classifier rt_eval ?m 3 (Some ''avg'')) = ''avg''"
    by (simp add: reset_classifier_fields)
  have fh: "forward_head (reset_classifier rt_eval ?m 3 (Some ''avg''))
       [[[1, 2], [3, 4], [5, 6]]] True = Inr [[1, 2]]"
    unfolding forward_head_pre_logits_reset
    by (simp add: forward_head_def f select_token_0_def bind_result_def)
  have mp: "mean_patch_tokens [[[1, 2], [3, 4], [5, 6]]] = Inr [[4, 5]]"
    by code_simp
  show ?thesis using n g fh mp by simp
qed


end
